theory Spec2Isabelle
  imports Main "HOL-Library.AList"
begin

section \<open>Python values and errors\<close>

text \<open>
  The values that \<^verbatim>\<open>response.json()\<close> produces: a dict is an association list
  in insertion order (looked up with \<open>map_of\<close>, updated with \<open>AList.update\<close>).
  JSON numbers are integers here; floating point values are outside the model.
\<close>

datatype json =
    JNull
  | JBool bool
  | JInt int
  | JStr string
  | JList "json list"
  | JObj "(string \<times> json) list"

type_synonym JSON_TYPE = "(string \<times> json) list"

text \<open>
  The exceptions the modelled code can raise. \<open>ClientResponseError\<close> carries the HTTP
  status; \<open>ClientError\<close> stands for every other failure inside aiohttp (connection,
  content type, JSON decoding). A \<^verbatim>\<open>StopIteration\<close> that escapes a coroutine is
  turned into \<open>RuntimeError\<close> by Python.
\<close>

datatype error =
    KeyError string
  | TypeError
  | IndexError
  | AttributeError string
  | RuntimeError
  | ClientResponseError nat
  | ClientError string

definition bindE :: "error + 'a \<Rightarrow> ('a \<Rightarrow> error + 'b) \<Rightarrow> error + 'b" where
  "bindE m f = (case m of Inl e \<Rightarrow> Inl e | Inr v \<Rightarrow> f v)"

text \<open>\<^verbatim>\<open>obj[key]\<close> with a string key: only a dict accepts it.\<close>

fun getitem :: "json \<Rightarrow> string \<Rightarrow> error + json" where
  "getitem (JObj kvs) key = (case map_of kvs key of None \<Rightarrow> Inl (KeyError key) | Some v \<Rightarrow> Inr v)"
| "getitem _ key = Inl TypeError"

text \<open>\<^verbatim>\<open>for item in obj\<close>: a list gives its elements, a dict its keys, a string its
  characters; nothing else is iterable.\<close>

fun py_iter :: "json \<Rightarrow> error + json list" where
  "py_iter (JList xs) = Inr xs"
| "py_iter (JObj kvs) = Inr (map (\<lambda>kv. JStr (fst kv)) kvs)"
| "py_iter (JStr s) = Inr (map (\<lambda>ch. JStr [ch]) s)"
| "py_iter _ = Inl TypeError"

text \<open>\<^verbatim>\<open>value > 0\<close>: defined on numbers (a bool is a number), a TypeError otherwise.\<close>

fun py_gt0 :: "json \<Rightarrow> error + bool" where
  "py_gt0 (JInt n) = Inr (n > 0)"
| "py_gt0 (JBool b) = Inr b"
| "py_gt0 _ = Inl TypeError"

section \<open>datatypes.py\<close>

text \<open>
  The dataclasses. \<^verbatim>\<open>from_json\<close> stores the values it reads without checking them
  against the annotations, so the leaves are \<open>json\<close> values.
\<close>

record Scale =
  current_value :: json
  max_value :: json

record Point2D =
  pt_x :: json
  pt_y :: json

record InGameTask =
  task_type :: json
  progress :: Scale

record Elemental =
  fire :: json
  earth :: json
  water :: json
  air :: json

record Skill =
  level :: json
  xp :: Scale

record GeneralItem =
  quantity :: json
  slot :: json
  code :: json

record Equipment =
  weapon :: json
  shield :: json
  helmet :: json
  body_armor :: json
  leg_armor :: json
  boots :: json
  ring1 :: json
  ring2 :: json
  amulet :: json
  artifact1 :: json
  artifact2 :: json
  artifact3 :: json
  utility1 :: GeneralItem
  utility2 :: GeneralItem

record CharacterData =
  cd_name :: json
  account :: json
  skin :: json
  gold :: json
  hp :: Scale
  position :: Point2D
  combat :: Skill
  mining :: Skill
  woodcutting :: Skill
  fishing :: Skill
  weaponcrafting :: Skill
  gearcrafting :: Skill
  jewlercrafting :: Skill
  cooking :: Skill
  alchemy :: Skill
  attack :: Elemental
  dmg :: Elemental
  res :: Elemental
  cd_task :: "InGameTask option"
  equipment :: Equipment
  inventory :: "GeneralItem list"

definition InGameTask_from_json :: "json \<Rightarrow> error + InGameTask" where
  "InGameTask_from_json json_data =
     bindE (getitem json_data ''task_type'') (\<lambda>tt.
     bindE (getitem json_data ''task_progress'') (\<lambda>tp.
     bindE (getitem json_data ''task_total'') (\<lambda>tot.
     Inr \<lparr>task_type = tt, progress = \<lparr>current_value = tp, max_value = tot\<rparr>\<rparr>)))"

definition Elemental_from_json :: "json \<Rightarrow> string \<Rightarrow> error + Elemental" where
  "Elemental_from_json json_data prefix =
     bindE (getitem json_data (prefix @ ''fire'')) (\<lambda>f.
     bindE (getitem json_data (prefix @ ''earth'')) (\<lambda>e.
     bindE (getitem json_data (prefix @ ''water'')) (\<lambda>w.
     bindE (getitem json_data (prefix @ ''air'')) (\<lambda>a.
     Inr \<lparr>fire = f, earth = e, water = w, air = a\<rparr>))))"

definition Skill_from_json :: "json \<Rightarrow> string \<Rightarrow> error + Skill" where
  "Skill_from_json json_data prefix =
     bindE (getitem json_data (prefix @ ''level'')) (\<lambda>l.
     bindE (getitem json_data (prefix @ ''xp'')) (\<lambda>cur.
     bindE (getitem json_data (prefix @ ''max_xp'')) (\<lambda>mx.
     Inr \<lparr>level = l, xp = \<lparr>current_value = cur, max_value = mx\<rparr>\<rparr>)))"

definition Equipment_from_json :: "json \<Rightarrow> error + Equipment" where
  "Equipment_from_json json_data =
     bindE (getitem json_data ''weapon_slot'') (\<lambda>v1.
     bindE (getitem json_data ''shield_slot'') (\<lambda>v2.
     bindE (getitem json_data ''helmet_slot'') (\<lambda>v3.
     bindE (getitem json_data ''body_armor_slot'') (\<lambda>v4.
     bindE (getitem json_data ''leg_armor_slot'') (\<lambda>v5.
     bindE (getitem json_data ''boots_slot'') (\<lambda>v6.
     bindE (getitem json_data ''ring1_slot'') (\<lambda>v7.
     bindE (getitem json_data ''ring2_slot'') (\<lambda>v8.
     bindE (getitem json_data ''amulet_slot'') (\<lambda>v9.
     bindE (getitem json_data ''artifact1_slot'') (\<lambda>v10.
     bindE (getitem json_data ''artifact2_slot'') (\<lambda>v11.
     bindE (getitem json_data ''artifact3_slot'') (\<lambda>v12.
     bindE (getitem json_data ''utility1_slot'') (\<lambda>u1.
     bindE (getitem json_data ''utility1_slot_quantity'') (\<lambda>q1.
     bindE (getitem json_data ''utility2_slot'') (\<lambda>u2.
     bindE (getitem json_data ''utility2_slot_quantity'') (\<lambda>q2.
     Inr \<lparr>weapon = v1, shield = v2, helmet = v3, body_armor = v4, leg_armor = v5,
          boots = v6, ring1 = v7, ring2 = v8, amulet = v9, artifact1 = v10,
          artifact2 = v11, artifact3 = v12,
          utility1 = \<lparr>quantity = q1, slot = u1, code = JStr ''''\<rparr>,
          utility2 = \<lparr>quantity = q2, slot = u2, code = JStr ''''\<rparr>\<rparr>))))))))))))))))"

text \<open>One step of the inventory comprehension: the keyword arguments are evaluated in
  the order \<^verbatim>\<open>slot\<close>, \<^verbatim>\<open>code\<close>, \<^verbatim>\<open>quantity\<close>.\<close>

definition item_from_json :: "json \<Rightarrow> error + GeneralItem" where
  "item_from_json item =
     bindE (getitem item ''slot'') (\<lambda>s.
     bindE (getitem item ''code'') (\<lambda>c.
     bindE (getitem item ''quantity'') (\<lambda>q.
     Inr \<lparr>quantity = q, slot = s, code = c\<rparr>)))"

fun items_from_json :: "json list \<Rightarrow> error + GeneralItem list" where
  "items_from_json [] = Inr []"
| "items_from_json (item # items) =
     bindE (item_from_json item) (\<lambda>i.
     bindE (items_from_json items) (\<lambda>is. Inr (i # is)))"

definition CharacterData_from_json :: "json \<Rightarrow> error + CharacterData" where
  "CharacterData_from_json data =
     bindE (getitem data ''name'') (\<lambda>n.
     bindE (getitem data ''account'') (\<lambda>a.
     bindE (getitem data ''skin'') (\<lambda>s.
     bindE (getitem data ''gold'') (\<lambda>g.
     bindE (getitem data ''hp'') (\<lambda>h.
     bindE (getitem data ''max_hp'') (\<lambda>mh.
     bindE (getitem data ''x'') (\<lambda>px.
     bindE (getitem data ''y'') (\<lambda>py.
     bindE (Skill_from_json data '''') (\<lambda>s1.
     bindE (Skill_from_json data ''mining_'') (\<lambda>s2.
     bindE (Skill_from_json data ''woodcutting_'') (\<lambda>s3.
     bindE (Skill_from_json data ''fishing_'') (\<lambda>s4.
     bindE (Skill_from_json data ''weaponcrafting_'') (\<lambda>s5.
     bindE (Skill_from_json data ''gearcrafting_'') (\<lambda>s6.
     bindE (Skill_from_json data ''jewelrycrafting_'') (\<lambda>s7.
     bindE (Skill_from_json data ''cooking_'') (\<lambda>s8.
     bindE (Skill_from_json data ''alchemy_'') (\<lambda>s9.
     bindE (Elemental_from_json data ''attack_'') (\<lambda>e1.
     bindE (Elemental_from_json data ''dmg_'') (\<lambda>e2.
     bindE (Elemental_from_json data ''res_'') (\<lambda>e3.
     bindE (InGameTask_from_json data) (\<lambda>t.
     bindE (Equipment_from_json data) (\<lambda>eq.
     bindE (getitem data ''inventory'') (\<lambda>inv.
     bindE (py_iter inv) (\<lambda>items.
     bindE (items_from_json items) (\<lambda>is.
     Inr \<lparr>cd_name = n, account = a, skin = s, gold = g,
          hp = \<lparr>current_value = h, max_value = mh\<rparr>,
          position = \<lparr>pt_x = px, pt_y = py\<rparr>,
          combat = s1, mining = s2, woodcutting = s3, fishing = s4,
          weaponcrafting = s5, gearcrafting = s6, jewlercrafting = s7,
          cooking = s8, alchemy = s9, attack = e1, dmg = e2, res = e3,
          cd_task = Some t, equipment = eq, inventory = is\<rparr>)))))))))))))))))))))))))"

section \<open>character.py: Task\<close>

text \<open>
  \<^verbatim>\<open>Character.character_data\<close> holds the raw record after \<^verbatim>\<open>init\<close> and a
  \<^verbatim>\<open>CharacterData\<close> after a task has run.
\<close>

datatype cdata = Raw json | Parsed CharacterData

text \<open>
  A \<^verbatim>\<open>Task\<close> object. The callback is called with the character and the payload; what
  it reads of the character is \<^verbatim>\<open>character_data\<close>, and what it does to the
  character is a sequence of \<^verbatim>\<open>add_task\<close> calls (every action method ends in one),
  so a callback is the function from what it reads to the tasks it adds, in order.
  A callback may add a task that carries the same callback again, so the type is
  coinductive. The attribute \<^verbatim>\<open>method\<close> is the selector \<open>http_method\<close>.
\<close>

codatatype Task = Task
  (url: string) (http_method: string) (params: JSON_TYPE)
  (callback: "(cdata option \<Rightarrow> JSON_TYPE \<Rightarrow> Task list) option")
  (cooldown: json)
  (character: "CharacterData option")
  (payload: JSON_TYPE)

type_synonym TASK_CALLBACK_TYPE = "(cdata option \<Rightarrow> JSON_TYPE \<Rightarrow> Task list) option"

text \<open>\<^verbatim>\<open>Task.__init__\<close>: \<^verbatim>\<open>params or {}\<close>, cooldown -1, no character, empty payload.\<close>

definition Task_init :: "string \<Rightarrow> string \<Rightarrow> TASK_CALLBACK_TYPE \<Rightarrow> JSON_TYPE option \<Rightarrow> Task" where
  "Task_init url' method' callback' params' =
     Task url' method' (case params' of None \<Rightarrow> [] | Some p \<Rightarrow> p) callback' (JInt (- 1)) None []"

definition set_character :: "CharacterData \<Rightarrow> Task \<Rightarrow> Task" where
  "set_character cd self =
     Task (url self) (http_method self) (params self) (callback self) (cooldown self) (Some cd) (payload self)"

definition set_cooldown :: "json \<Rightarrow> Task \<Rightarrow> Task" where
  "set_cooldown v self =
     Task (url self) (http_method self) (params self) (callback self) v (character self) (payload self)"

definition set_payload :: "JSON_TYPE \<Rightarrow> Task \<Rightarrow> Task" where
  "set_payload p self =
     Task (url self) (http_method self) (params self) (callback self) (cooldown self) (character self) p"

record Character =
  on_cooldown :: bool
  tasks :: "Task list option"
  character_data :: "cdata option"
  name :: string

text \<open>\<^verbatim>\<open>Character.__init__\<close> sets the name only: the class attribute \<^verbatim>\<open>on_cooldown\<close>
  is False, \<^verbatim>\<open>tasks\<close> and \<^verbatim>\<open>character_data\<close> are not set yet.\<close>

definition Character_init :: "string \<Rightarrow> Character" where
  "Character_init name' = \<lparr>on_cooldown = False, tasks = None, character_data = None, name = name'\<rparr>"

section \<open>networking.py\<close>

text \<open>
  A coroutine is suspended at the request and at the sleep. The trace lists these
  suspensions in order, each with the character as it stands while the coroutine is
  suspended. The server answers a request with a transport failure or with a response
  (status and decoded body); its answer may depend on everything that happened before.
\<close>

datatype event = Request string string JSON_TYPE | Sleep json

type_synonym trace = "(event \<times> Character) list"

record http_response =
  status :: nat
  json_body :: "error + json"

type_synonym server = "event list \<Rightarrow> error + http_response"

definition BASE_URL :: string where
  "BASE_URL = ''https://api.artifactsmmo.com''"

text \<open>\<^verbatim>\<open>raise_for_status\<close> raises for the 4xx and 5xx status codes.\<close>

definition make_request ::
  "server \<Rightarrow> Character \<Rightarrow> trace \<Rightarrow> string \<Rightarrow> string \<Rightarrow> JSON_TYPE \<Rightarrow> (error + json) \<times> trace" where
  "make_request srv chr tr uri method' data' =
     (let tr' = tr @ [(Request method' (BASE_URL @ uri) data', chr)] in
      (bindE (srv (map fst tr')) (\<lambda>response.
         if 400 \<le> status response then Inl (ClientResponseError (status response))
         else bindE (json_body response) (\<lambda>body. getitem body ''data'')),
       tr'))"

section \<open>character.py: execute\<close>

text \<open>The loop over the keys of the response that fills the payload.\<close>

fun store_payload :: "json \<Rightarrow> string list \<Rightarrow> JSON_TYPE \<Rightarrow> error + JSON_TYPE" where
  "store_payload data [] payload' = Inr payload'"
| "store_payload data (key # keys) payload' =
     (if key \<in> set [''cooldown'', ''character''] then store_payload data keys payload'
      else bindE (getitem data key) (\<lambda>v. store_payload data keys (AList.update key v payload')))"

text \<open>
  \<^verbatim>\<open>Task.execute\<close>. The parameters are passed as keyword arguments next to
  \<^verbatim>\<open>uri\<close> and \<^verbatim>\<open>method\<close>, so a parameter of either name is a TypeError. The task
  is returned as the exception leaves it.
\<close>

definition execute :: "server \<Rightarrow> Character \<Rightarrow> trace \<Rightarrow> Task \<Rightarrow> error option \<times> Task \<times> trace" where
  "execute srv chr tr self =
     (if ''uri'' \<in> fst ` set (params self) \<or> ''method'' \<in> fst ` set (params self)
      then (Some TypeError, self, tr)
      else case make_request srv chr tr (url self) (http_method self) (params self) of
        (Inl e, tr') \<Rightarrow> (Some e, self, tr')
      | (Inr data, tr') \<Rightarrow>
          (case bindE (getitem data ''character'') CharacterData_from_json of
             Inl e \<Rightarrow> (Some e, self, tr')
           | Inr cd \<Rightarrow>
               (let self1 = set_character cd self in
                case bindE (getitem data ''cooldown'') (\<lambda>c. getitem c ''remaining_seconds'') of
                  Inl e \<Rightarrow> (Some e, self1, tr')
                | Inr secs \<Rightarrow>
                    (let self2 = set_cooldown secs self1 in
                     case (case data of JObj kvs \<Rightarrow> store_payload data (map fst kvs) (payload self2)
                                      | _ \<Rightarrow> Inl TypeError) of
                       Inl e \<Rightarrow> (Some e, self2, tr')
                     | Inr p \<Rightarrow> (None, set_payload p self2, tr')))))"

section \<open>character.py: Character\<close>

text \<open>\<^verbatim>\<open>list.pop(0)\<close>.\<close>

fun pop0 :: "'a list \<Rightarrow> error + ('a \<times> 'a list)" where
  "pop0 [] = Inl IndexError"
| "pop0 (x # xs) = Inr (x, xs)"

definition add_task :: "Character \<Rightarrow> Task \<Rightarrow> error + Character" where
  "add_task self task =
     (case tasks self of
        None \<Rightarrow> Inl (AttributeError ''tasks'')
      | Some q \<Rightarrow> Inr (self\<lparr>tasks := Some (q @ [task])\<rparr>))"

fun add_tasks :: "Character \<Rightarrow> Task list \<Rightarrow> error + Character" where
  "add_tasks self [] = Inr self"
| "add_tasks self (task # rest) = bindE (add_task self task) (\<lambda>self'. add_tasks self' rest)"

text \<open>\<^verbatim>\<open>next(filter(lambda char: char["name"] == self.name, data))\<close> inside a coroutine.\<close>

fun next_filter :: "string \<Rightarrow> json list \<Rightarrow> error + json" where
  "next_filter nm [] = Inl RuntimeError"
| "next_filter nm (char # rest) =
     bindE (getitem char ''name'') (\<lambda>v. if v = JStr nm then Inr char else next_filter nm rest)"

definition init :: "server \<Rightarrow> Character \<times> trace \<Rightarrow> error option \<times> Character \<times> trace" where
  "init srv st =
     (let self = (fst st)\<lparr>tasks := Some []\<rparr> in
      case make_request srv self (snd st) ''/my/characters'' ''GET'' [] of
        (Inl e, tr') \<Rightarrow> (Some e, self, tr')
      | (Inr data, tr') \<Rightarrow>
          (case bindE (py_iter data) (next_filter (name self)) of
             Inl e \<Rightarrow> (Some e, self, tr')
           | Inr char \<Rightarrow> (None, self\<lparr>character_data := Some (Raw char)\<rparr>, tr')))"

definition run_task :: "server \<Rightarrow> Character \<times> trace \<Rightarrow> error option \<times> Character \<times> trace" where
  "run_task srv st =
     (case tasks (fst st) of
        None \<Rightarrow> (Some (AttributeError ''tasks''), st)
      | Some q \<Rightarrow>
          (case pop0 q of
             Inl e \<Rightarrow> (Some e, st)
           | Inr (task, rest) \<Rightarrow>
               (let self = (fst st)\<lparr>tasks := Some rest\<rparr> in
                case execute srv self (snd st) task of
                  (Some e, task', tr') \<Rightarrow> (Some e, self, tr')
                | (None, task', tr') \<Rightarrow>
                    (let self1 = (case character task' of
                                    None \<Rightarrow> self
                                  | Some cd \<Rightarrow> self\<lparr>character_data := Some (Parsed cd)\<rparr>) in
                     case (case callback task' of
                             None \<Rightarrow> Inr self1
                           | Some cb \<Rightarrow> add_tasks self1 (cb (character_data self1) (payload task'))) of
                       Inl e \<Rightarrow> (Some e, self1, tr')
                     | Inr self2 \<Rightarrow>
                         (case py_gt0 (cooldown task') of
                            Inl e \<Rightarrow> (Some e, self2, tr')
                          | Inr False \<Rightarrow> (None, self2, tr')
                          | Inr True \<Rightarrow>
                              (let self3 = self2\<lparr>on_cooldown := True\<rparr> in
                               (None, self3\<lparr>on_cooldown := False\<rparr>,
                                tr' @ [(Sleep (cooldown task'), self3)])))))))"

text \<open>
  Modelled from the spec: \<^verbatim>\<open>Character.run_all\<close>, which the strategy scripts call and
  the sources do not define. The spec's runner loop: if the queue is empty, stop;
  otherwise dequeue and run one task, stop on a failure, and repeat.
\<close>

partial_function (option) run_all ::
  "server \<Rightarrow> Character \<times> trace \<Rightarrow> (error option \<times> Character \<times> trace) option" where
  "run_all srv st =
     (case tasks (fst st) of
        None \<Rightarrow> Some (Some (AttributeError ''tasks''), st)
      | Some q \<Rightarrow>
          (if q = [] then Some (None, st)
           else case run_task srv st of
             (Some e, st') \<Rightarrow> Some (Some e, st')
           | (None, st') \<Rightarrow> run_all srv st'))"

section \<open>__main__.py\<close>

fun amount_loop :: "GeneralItem list \<Rightarrow> string \<Rightarrow> json" where
  "amount_loop [] code' = JInt 0"
| "amount_loop (item # items) code' =
     (if code item = JStr code' then quantity item else amount_loop items code')"

definition get_amount_by_code :: "Character \<Rightarrow> string \<Rightarrow> error + json" where
  "get_amount_by_code chr code' =
     (case character_data chr of
        None \<Rightarrow> Inl (AttributeError ''character_data'')
      | Some (Raw _) \<Rightarrow> Inl (AttributeError ''inventory'')
      | Some (Parsed cd) \<Rightarrow> Inr (amount_loop (inventory cd) code'))"

section \<open>What the trace shows\<close>

text \<open>The request a task sends.\<close>

definition request_of :: "Task \<Rightarrow> event" where
  "request_of t = Request (http_method t) (BASE_URL @ url t) (params t)"

text \<open>
  The requests of a trace, each with the queue of the character while the request is in
  flight; and what that view is when the tasks of a queue are run first in, first out.
\<close>

definition is_request :: "event \<Rightarrow> bool" where
  "is_request ev = (case ev of Request _ _ _ \<Rightarrow> True | Sleep _ \<Rightarrow> False)"

definition request_view :: "trace \<Rightarrow> (event \<times> Task list option) list" where
  "request_view tr = map (\<lambda>p. (fst p, tasks (snd p))) (filter (\<lambda>p. is_request (fst p)) tr)"

fun fifo_view :: "Task list \<Rightarrow> (event \<times> Task list option) list" where
  "fifo_view [] = []"
| "fifo_view (t # q) = (request_of t, Some q) # fifo_view q"

text \<open>
  A response that a task executes on without failing: a status below 400, a body whose
  \<^verbatim>\<open>data\<close> is a dict with a decodable \<^verbatim>\<open>character\<close> and a \<^verbatim>\<open>cooldown\<close> whose
  \<^verbatim>\<open>remaining_seconds\<close> is a number.
\<close>

definition response_ok :: "http_response \<Rightarrow> bool" where
  "response_ok resp =
     (status resp < 400 \<and>
      (case bindE (json_body resp) (\<lambda>body. getitem body ''data'') of
         Inr (JObj kvs) \<Rightarrow>
           \<not> isl (bindE (getitem (JObj kvs) ''character'') CharacterData_from_json) \<and>
           \<not> isl (bindE (getitem (JObj kvs) ''cooldown'') (\<lambda>c.
                    bindE (getitem c ''remaining_seconds'') py_gt0))
       | _ \<Rightarrow> False))"

section \<open>Concrete inputs\<close>

text \<open>A character record as the API returns it, its decoding, a response around it, and
  servers that always answer with it.\<close>

definition sample_character :: json where
  "sample_character = JObj
    [(''name'', JStr ''bob''),
     (''account'', JStr ''acct''),
     (''skin'', JStr ''men1''),
     (''gold'', JInt 12),
     (''hp'', JInt 90),
     (''max_hp'', JInt 120),
     (''x'', JInt 0),
     (''y'', JInt 1),
     (''level'', JInt 3),
     (''xp'', JInt 40),
     (''max_xp'', JInt 250),
     (''mining_level'', JInt 1),
     (''mining_xp'', JInt 0),
     (''mining_max_xp'', JInt 150),
     (''woodcutting_level'', JInt 1),
     (''woodcutting_xp'', JInt 0),
     (''woodcutting_max_xp'', JInt 150),
     (''fishing_level'', JInt 1),
     (''fishing_xp'', JInt 0),
     (''fishing_max_xp'', JInt 150),
     (''weaponcrafting_level'', JInt 1),
     (''weaponcrafting_xp'', JInt 0),
     (''weaponcrafting_max_xp'', JInt 150),
     (''gearcrafting_level'', JInt 1),
     (''gearcrafting_xp'', JInt 0),
     (''gearcrafting_max_xp'', JInt 150),
     (''jewelrycrafting_level'', JInt 1),
     (''jewelrycrafting_xp'', JInt 0),
     (''jewelrycrafting_max_xp'', JInt 150),
     (''cooking_level'', JInt 1),
     (''cooking_xp'', JInt 0),
     (''cooking_max_xp'', JInt 150),
     (''alchemy_level'', JInt 1),
     (''alchemy_xp'', JInt 0),
     (''alchemy_max_xp'', JInt 150),
     (''attack_fire'', JInt 0),
     (''attack_earth'', JInt 0),
     (''attack_water'', JInt 0),
     (''attack_air'', JInt 0),
     (''dmg_fire'', JInt 0),
     (''dmg_earth'', JInt 0),
     (''dmg_water'', JInt 0),
     (''dmg_air'', JInt 0),
     (''res_fire'', JInt 0),
     (''res_earth'', JInt 0),
     (''res_water'', JInt 0),
     (''res_air'', JInt 0),
     (''task_type'', JStr ''monsters''),
     (''task_progress'', JInt 2),
     (''task_total'', JInt 10),
     (''weapon_slot'', JStr ''wooden_stick''),
     (''shield_slot'', JStr ''''),
     (''helmet_slot'', JStr ''''),
     (''body_armor_slot'', JStr ''''),
     (''leg_armor_slot'', JStr ''''),
     (''boots_slot'', JStr ''''),
     (''ring1_slot'', JStr ''''),
     (''ring2_slot'', JStr ''''),
     (''amulet_slot'', JStr ''''),
     (''artifact1_slot'', JStr ''''),
     (''artifact2_slot'', JStr ''''),
     (''artifact3_slot'', JStr ''''),
     (''utility1_slot'', JStr ''''),
     (''utility1_slot_quantity'', JInt 0),
     (''utility2_slot'', JStr ''''),
     (''utility2_slot_quantity'', JInt 0),
     (''inventory'', JList [JObj [(''slot'', JInt 1), (''code'', JStr ''ash_wood''), (''quantity'', JInt 4)]])]"

definition sample_cd :: CharacterData where
  "sample_cd =
     \<lparr>cd_name = JStr ''bob'', account = JStr ''acct'', skin = JStr ''men1'', gold = JInt 12,
      hp = \<lparr>current_value = JInt 90, max_value = JInt 120\<rparr>,
      position = \<lparr>pt_x = JInt 0, pt_y = JInt 1\<rparr>,
      combat = \<lparr>level = JInt 3, xp = \<lparr>current_value = JInt 40, max_value = JInt 250\<rparr>\<rparr>,
      mining = \<lparr>level = JInt 1, xp = \<lparr>current_value = JInt 0, max_value = JInt 150\<rparr>\<rparr>,
      woodcutting = \<lparr>level = JInt 1, xp = \<lparr>current_value = JInt 0, max_value = JInt 150\<rparr>\<rparr>,
      fishing = \<lparr>level = JInt 1, xp = \<lparr>current_value = JInt 0, max_value = JInt 150\<rparr>\<rparr>,
      weaponcrafting = \<lparr>level = JInt 1, xp = \<lparr>current_value = JInt 0, max_value = JInt 150\<rparr>\<rparr>,
      gearcrafting = \<lparr>level = JInt 1, xp = \<lparr>current_value = JInt 0, max_value = JInt 150\<rparr>\<rparr>,
      jewlercrafting = \<lparr>level = JInt 1, xp = \<lparr>current_value = JInt 0, max_value = JInt 150\<rparr>\<rparr>,
      cooking = \<lparr>level = JInt 1, xp = \<lparr>current_value = JInt 0, max_value = JInt 150\<rparr>\<rparr>,
      alchemy = \<lparr>level = JInt 1, xp = \<lparr>current_value = JInt 0, max_value = JInt 150\<rparr>\<rparr>,
      attack = \<lparr>fire = JInt 0, earth = JInt 0, water = JInt 0, air = JInt 0\<rparr>,
      dmg = \<lparr>fire = JInt 0, earth = JInt 0, water = JInt 0, air = JInt 0\<rparr>,
      res = \<lparr>fire = JInt 0, earth = JInt 0, water = JInt 0, air = JInt 0\<rparr>,
      cd_task = Some \<lparr>task_type = JStr ''monsters'',
                         progress = \<lparr>current_value = JInt 2, max_value = JInt 10\<rparr>\<rparr>,
      equipment =
        \<lparr>weapon = JStr ''wooden_stick'', shield = JStr '''', helmet = JStr '''',
         body_armor = JStr '''', leg_armor = JStr '''', boots = JStr '''', ring1 = JStr '''',
         ring2 = JStr '''', amulet = JStr '''', artifact1 = JStr '''', artifact2 = JStr '''',
         artifact3 = JStr '''', utility1 = \<lparr>quantity = JInt 0, slot = JStr '''', code = JStr ''''\<rparr>,
         utility2 = \<lparr>quantity = JInt 0, slot = JStr '''', code = JStr ''''\<rparr>\<rparr>,
      inventory = [\<lparr>quantity = JInt 4, slot = JInt 1, code = JStr ''ash_wood''\<rparr>]\<rparr>"

definition sample_data :: "int \<Rightarrow> json" where
  "sample_data secs = JObj
    [(''cooldown'', JObj [(''total_seconds'', JInt 5), (''remaining_seconds'', JInt secs)]),
     (''details'', JObj [(''xp'', JInt 7)]),
     (''character'', sample_character)]"

definition sample_server :: "nat \<Rightarrow> int \<Rightarrow> server" where
  "sample_server st secs evs =
     Inr \<lparr>status = st, json_body = Inr (JObj [(''data'', sample_data secs)])\<rparr>"

definition sample_task :: "TASK_CALLBACK_TYPE \<Rightarrow> Task" where
  "sample_task cb = Task_init ''/my/bob/action/gathering'' ''POST'' cb None"

definition sample_self :: "Task list \<Rightarrow> Character" where
  "sample_self q = \<lparr>on_cooldown = False, tasks = Some q, character_data = None, name = ''bob''\<rparr>"

definition sample_callback :: "cdata option \<Rightarrow> JSON_TYPE \<Rightarrow> Task list" where
  "sample_callback cd p = [Task_init ''/my/bob/action/rest'' ''POST'' None None]"

definition sample_characters :: "json list" where
  "sample_characters =
     [JObj [(''name'', JStr ''alice''), (''level'', JInt 9)],
      JObj [(''name'', JStr ''bob''), (''level'', JInt 3)]]"

definition characters_server :: server where
  "characters_server evs =
     Inr \<lparr>status = 200, json_body = Inr (JObj [(''data'', JList sample_characters)])\<rparr>"

text \<open>A character list whose first record has no name.\<close>

definition nameless_server :: server where
  "nameless_server evs =
     Inr \<lparr>status = 200,
          json_body = Inr (JObj [(''data'',
            JList [JObj [(''level'', JInt 9)], JObj [(''name'', JStr ''bob'')]])])\<rparr>"

section \<open>Basic facts\<close>

lemma bindE_Inr [simp]: "bindE (Inr v) f = f v"
  by (simp add: bindE_def)

lemma bindE_Inl [simp]: "bindE (Inl e) f = Inl e"
  by (simp add: bindE_def)

lemma bindE_eq_Inr: "bindE m f = Inr y \<longleftrightarrow> (\<exists>v. m = Inr v \<and> f v = Inr y)"
  by (cases m) simp_all

lemma getitem_eq_Inr: "getitem d k = Inr v \<longleftrightarrow> (\<exists>kvs. d = JObj kvs \<and> map_of kvs k = Some v)"
  by (cases d) (auto split: option.splits)

lemma make_request_trace:
  "snd (make_request srv chr tr u m d) = tr @ [(Request m (BASE_URL @ u) d, chr)]"
  by (simp add: make_request_def Let_def)

lemma store_payload_lookup:
  "store_payload (JObj kvs) ks acc = Inr p \<Longrightarrow>
   map_of p k = (if k \<in> set ks \<and> k \<noteq> ''cooldown'' \<and> k \<noteq> ''character'' then map_of kvs k
                 else map_of acc k)"
proof (induction ks arbitrary: acc)
  case Nil
  then show ?case by simp
next
  case (Cons key ks)
  show ?case
  proof (cases "key = ''cooldown'' \<or> key = ''character''")
    case True
    with Cons.prems have "store_payload (JObj kvs) ks acc = Inr p" by auto
    from Cons.IH[OF this] True show ?thesis by auto
  next
    case False
    with Cons.prems obtain v where v: "map_of kvs key = Some v"
      and rest: "store_payload (JObj kvs) ks (AList.update key v acc) = Inr p"
      by (auto simp: bindE_eq_Inr split: option.splits)
    from Cons.IH[OF rest] v False show ?thesis
      by (auto simp: update_conv')
  qed
qed

lemma store_payload_total:
  "set ks \<subseteq> fst ` set kvs \<Longrightarrow> \<exists>p. store_payload (JObj kvs) ks acc = Inr p"
proof (induction ks arbitrary: acc)
  case Nil
  then show ?case by simp
next
  case (Cons key ks)
  then obtain v where "map_of kvs key = Some v"
    by (metis list.set_intros(1) subsetD weak_map_of_SomeI image_iff prod.collapse map_of_eq_None_iff not_None_eq)
  with Cons show ?case by auto
qed

lemma execute_None:
  assumes "execute srv chr tr t = (None, t', tr')"
  shows "\<exists>kvs cj cd cw secs p.
           make_request srv chr tr (url t) (http_method t) (params t) = (Inr (JObj kvs), tr') \<and>
           map_of kvs ''character'' = Some cj \<and> CharacterData_from_json cj = Inr cd \<and>
           map_of kvs ''cooldown'' = Some cw \<and> getitem cw ''remaining_seconds'' = Inr secs \<and>
           store_payload (JObj kvs) (map fst kvs) (payload t) = Inr p \<and>
           t' = Task (url t) (http_method t) (params t) (callback t) secs (Some cd) p"
  using assms
  by (auto simp: execute_def Let_def bindE_eq_Inr getitem_eq_Inr set_character_def
      set_cooldown_def set_payload_def
      split: if_splits prod.splits sum.splits json.splits option.splits)


lemma execute_trace:
  assumes "execute srv chr tr t = (None, t', tr')"
  shows "tr' = tr @ [(request_of t, chr)]"
proof -
  from execute_None[OF assms] obtain d where
    "make_request srv chr tr (url t) (http_method t) (params t) = (Inr d, tr')" by blast
  then have "snd (make_request srv chr tr (url t) (http_method t) (params t)) = tr'" by simp
  then show ?thesis by (simp add: make_request_trace request_of_def)
qed

lemma execute_fail_trace:
  assumes "execute srv chr tr t = (Some e, t', tr')"
  shows "tr' = tr \<or> tr' = tr @ [(request_of t, chr)]"
proof (cases "''uri'' \<in> fst ` set (params t) \<or> ''method'' \<in> fst ` set (params t)")
  case True
  with assms show ?thesis by (auto simp: execute_def)
next
  case False
  obtain r tr1 where mr: "make_request srv chr tr (url t) (http_method t) (params t) = (r, tr1)"
    by (cases "make_request srv chr tr (url t) (http_method t) (params t)")
  then have "snd (make_request srv chr tr (url t) (http_method t) (params t)) = tr1" by simp
  then have tr1: "tr1 = tr @ [(request_of t, chr)]"
    by (simp add: make_request_trace request_of_def)
  from assms False mr have "tr' = tr1"
    by (auto simp: execute_def Let_def split: sum.splits)
  with tr1 show ?thesis by simp
qed

lemma add_tasks_Some:
  "tasks c = Some q \<Longrightarrow> add_tasks c ts = Inr (c\<lparr>tasks := Some (q @ ts)\<rparr>)"
  by (induction ts arbitrary: c q) (simp_all add: add_task_def)

lemma run_task_Nil:
  "tasks c = Some [] \<Longrightarrow> run_task srv (c, tr) = (Some IndexError, c, tr)"
  by (simp add: run_task_def)

lemma run_task_fail:
  assumes "tasks c = Some (t # q)"
    and "execute srv (c\<lparr>tasks := Some q\<rparr>) tr t = (Some e, t', tr')"
  shows "run_task srv (c, tr) = (Some e, c\<lparr>tasks := Some q\<rparr>, tr')"
  using assms by (simp add: run_task_def)

lemma run_task_ok:
  assumes "tasks c = Some (t # q)"
    and "execute srv (c\<lparr>tasks := Some q\<rparr>) tr t = (None, t', tr')"
    and "character t' = Some cd"
    and "py_gt0 (cooldown t') = Inr b"
  shows "run_task srv (c, tr) =
     (let added = (case callback t' of None \<Rightarrow> [] | Some cb \<Rightarrow> cb (Some (Parsed cd)) (payload t'));
          self2 = c\<lparr>tasks := Some (q @ added), character_data := Some (Parsed cd)\<rparr>
      in if b then (None, self2\<lparr>on_cooldown := False\<rparr>,
                    tr' @ [(Sleep (cooldown t'), self2\<lparr>on_cooldown := True\<rparr>)])
         else (None, self2, tr'))"
  using assms by (simp add: run_task_def Let_def add_tasks_Some split: option.splits)


lemma request_view_append [simp]:
  "request_view (tr @ tr') = request_view tr @ request_view tr'"
  by (simp add: request_view_def)

lemma request_view_request [simp]:
  "request_view ((request_of t, c) # tr) = (request_of t, tasks c) # request_view tr"
  by (simp add: request_view_def request_of_def is_request_def)

lemma request_view_sleep [simp]: "request_view ((Sleep v, c) # tr) = request_view tr"
  by (simp add: request_view_def is_request_def)

lemma request_view_Nil [simp]: "request_view [] = []"
  by (simp add: request_view_def)

lemma execute_callback:
  "execute srv chr tr t = (r, t', tr') \<Longrightarrow> callback t' = callback t"
  by (auto simp: execute_def Let_def set_character_def set_cooldown_def set_payload_def
      split: if_splits prod.splits sum.splits)

lemma run_task_no_callback:
  assumes q: "tasks c = Some (t # q)" and cb: "callback t = None"
  shows "\<exists>e c' tr'. run_task srv (c, tr) = (e, c', tr') \<and> tasks c' = Some q \<and>
           (request_view tr' = request_view tr @ [(request_of t, Some q)] \<or>
            (e \<noteq> None \<and> request_view tr' = request_view tr))"
proof -
  let ?c1 = "c\<lparr>tasks := Some q\<rparr>"
  obtain r t' tr1 where ex: "execute srv ?c1 tr t = (r, t', tr1)"
    by (cases "execute srv ?c1 tr t") auto
  show ?thesis
  proof (cases r)
    case (Some e)
    with ex have "run_task srv (c, tr) = (Some e, ?c1, tr1)"
      using run_task_fail[OF q] by simp
    moreover from ex Some have "tr1 = tr \<or> tr1 = tr @ [(request_of t, ?c1)]"
      using execute_fail_trace by simp
    ultimately show ?thesis by auto
  next
    case None
    with ex have ex': "execute srv ?c1 tr t = (None, t', tr1)" by simp
    from execute_None[OF ex'] obtain cd where cd: "character t' = Some cd" by auto
    from execute_callback[OF ex'] cb have cb': "callback t' = None" by simp
    from execute_trace[OF ex'] have tr1: "tr1 = tr @ [(request_of t, ?c1)]" .
    show ?thesis
    proof (cases "py_gt0 (cooldown t')")
      case (Inl e)
      with q ex' cd cb' have "run_task srv (c, tr) =
          (Some e, ?c1\<lparr>character_data := Some (Parsed cd)\<rparr>, tr1)"
        by (simp add: run_task_def Let_def)
      with tr1 show ?thesis by simp
    next
      case (Inr b)
      from run_task_ok[OF q ex' cd Inr] cb' tr1 show ?thesis
        by (cases b) (simp_all add: Let_def)
    qed
  qed
qed

lemma run_all_Nil: "tasks c = Some [] \<Longrightarrow> run_all srv (c, tr) = Some (None, c, tr)"
  by (subst run_all.simps) simp

lemma run_all_Cons_fail:
  "tasks c = Some (t # q) \<Longrightarrow> run_task srv (c, tr) = (Some e, st') \<Longrightarrow>
   run_all srv (c, tr) = Some (Some e, st')"
  by (subst run_all.simps) simp

lemma run_all_Cons_ok:
  "tasks c = Some (t # q) \<Longrightarrow> run_task srv (c, tr) = (None, st') \<Longrightarrow>
   run_all srv (c, tr) = run_all srv st'"
  by (subst run_all.simps) simp

lemma run_all_fifo:
  assumes "tasks c = Some q" and "\<forall>t\<in>set q. callback t = None"
  shows "\<exists>e c' tr' k. run_all srv (c, tr) = Some (e, c', tr') \<and> k \<le> length q \<and>
           request_view tr' = request_view tr @ take k (fifo_view q) \<and>
           (e = None \<longrightarrow> k = length q \<and> tasks c' = Some [])"
  using assms
proof (induction q arbitrary: c tr)
  case Nil
  then have "run_all srv (c, tr) = Some (None, c, tr)" by (simp add: run_all_Nil)
  then show ?case using Nil by auto
next
  case (Cons t q)
  from Cons.prems have cb: "callback t = None" by simp
  from run_task_no_callback[OF Cons.prems(1) cb, of srv tr]
  obtain e c1 tr1 where rt: "run_task srv (c, tr) = (e, c1, tr1)"
    and q1: "tasks c1 = Some q"
    and view: "request_view tr1 = request_view tr @ [(request_of t, Some q)] \<or>
               (e \<noteq> None \<and> request_view tr1 = request_view tr)"
    by blast
  show ?case
  proof (cases e)
    case (Some err)
    with rt have ra: "run_all srv (c, tr) = Some (Some err, c1, tr1)"
      using run_all_Cons_fail[OF Cons.prems(1)] by simp
    from view show ?thesis
    proof
      assume "request_view tr1 = request_view tr @ [(request_of t, Some q)]"
      then have "request_view tr1 = request_view tr @ take 1 (fifo_view (t # q))" by simp
      with ra show ?thesis by (intro exI[of _ "Some err"] exI[of _ c1] exI[of _ tr1] exI[of _ 1]) simp
    next
      assume "e \<noteq> None \<and> request_view tr1 = request_view tr"
      then have "request_view tr1 = request_view tr @ take 0 (fifo_view (t # q))" by simp
      with ra show ?thesis by (intro exI[of _ "Some err"] exI[of _ c1] exI[of _ tr1] exI[of _ 0]) simp
    qed
  next
    case None
    with rt have ra: "run_all srv (c, tr) = run_all srv (c1, tr1)"
      using run_all_Cons_ok[OF Cons.prems(1)] by simp
    from view None have v1: "request_view tr1 = request_view tr @ [(request_of t, Some q)]"
      by simp
    from Cons.prems have "\<forall>t\<in>set q. callback t = None" by simp
    from Cons.IH[OF q1 this, of tr1] obtain e' c' tr' k where
      r: "run_all srv (c1, tr1) = Some (e', c', tr')" and k: "k \<le> length q"
      and v: "request_view tr' = request_view tr1 @ take k (fifo_view q)"
      and fin: "e' = None \<longrightarrow> k = length q \<and> tasks c' = Some []"
      by blast
    from v v1 have "request_view tr' = request_view tr @ take (Suc k) (fifo_view (t # q))"
      by simp
    with ra r k fin show ?thesis
      by (intro exI[of _ e'] exI[of _ c'] exI[of _ tr'] exI[of _ "Suc k"]) simp
  qed
qed


lemma sample_from_json: "CharacterData_from_json sample_character = Inr sample_cd"
  by code_simp

lemma sample_execute:
  assumes "st < 400"
  shows "execute (sample_server st secs) chr tr (sample_task cb) =
     (None,
      Task ''/my/bob/action/gathering'' ''POST'' [] cb (JInt secs) (Some sample_cd)
        [(''details'', JObj [(''xp'', JInt 7)])],
      tr @ [(request_of (sample_task cb), chr)])"
  using assms
  by (simp add: execute_def make_request_def sample_server_def sample_data_def sample_task_def
      Task_init_def sample_from_json set_character_def set_cooldown_def set_payload_def
      request_of_def Let_def)

lemma sample_execute_fail:
  assumes "400 \<le> st"
  shows "execute (sample_server st secs) chr tr (sample_task cb) =
     (Some (ClientResponseError st), sample_task cb, tr @ [(request_of (sample_task cb), chr)])"
  using assms
  by (simp add: execute_def make_request_def sample_server_def sample_task_def
      Task_init_def request_of_def Let_def)

lemma sample_self_tasks [simp]: "tasks (sample_self q) = Some q"
  by (simp add: sample_self_def)

lemma sample_self_fields [simp]:
  "character_data (sample_self q) = None" "on_cooldown (sample_self q) = False"
  "name (sample_self q) = ''bob''"
  by (simp_all add: sample_self_def)

lemma sample_self_update [simp]: "(sample_self q)\<lparr>tasks := Some q'\<rparr> = sample_self q'"
  by (simp add: sample_self_def)

lemma sample_run_task:
  assumes "st < 400"
  shows "run_task (sample_server st secs) (sample_self (sample_task cb # q), tr) =
     (let added = (case cb of None \<Rightarrow> []
                   | Some f \<Rightarrow> f (Some (Parsed sample_cd)) [(''details'', JObj [(''xp'', JInt 7)])]);
          self2 = (sample_self (q @ added))\<lparr>character_data := Some (Parsed sample_cd)\<rparr>
      in if 0 < secs
         then (None, self2\<lparr>on_cooldown := False\<rparr>,
               tr @ [(request_of (sample_task cb), sample_self q),
                     (Sleep (JInt secs), self2\<lparr>on_cooldown := True\<rparr>)])
         else (None, self2, tr @ [(request_of (sample_task cb), sample_self q)]))"
proof -
  have ex: "execute (sample_server st secs) ((sample_self (sample_task cb # q))\<lparr>tasks := Some q\<rparr>) tr
      (sample_task cb) =
     (None,
      Task ''/my/bob/action/gathering'' ''POST'' [] cb (JInt secs) (Some sample_cd)
        [(''details'', JObj [(''xp'', JInt 7)])],
      tr @ [(request_of (sample_task cb), sample_self q)])"
    using sample_execute[OF assms] by simp
  have q: "tasks (sample_self (sample_task cb # q)) = Some (sample_task cb # q)" by simp
  show ?thesis
    using run_task_ok[OF q ex, of sample_cd "0 < secs"]
    by (simp add: Let_def sample_self_def split: option.splits)
qed

lemma run_task_queue:
  assumes "tasks c = Some (t # q)"
  shows "\<exists>ts. tasks (fst (snd (run_task srv (c, tr)))) = Some (q @ ts)"
proof -
  let ?c1 = "c\<lparr>tasks := Some q\<rparr>"
  obtain r t' tr1 where ex: "execute srv ?c1 tr t = (r, t', tr1)"
    by (cases "execute srv ?c1 tr t") auto
  show ?thesis
  proof (cases r)
    case (Some e)
    with ex run_task_fail[OF assms] show ?thesis by simp
  next
    case None
    with ex have ex': "execute srv ?c1 tr t = (None, t', tr1)" by simp
    from execute_None[OF ex'] obtain cd where ch: "character t' = Some cd" by auto
    show ?thesis
    proof (cases "py_gt0 (cooldown t')")
      case (Inl e)
      with assms ex' ch show ?thesis
        by (simp add: run_task_def Let_def add_tasks_Some split: option.splits)
    next
      case (Inr b)
      from run_task_ok[OF assms ex' ch Inr] show ?thesis
        by (cases b) (simp_all add: Let_def)
    qed
  qed
qed

lemma amount_loop_found:
  "\<forall>i\<in>set pre. code i \<noteq> JStr c \<Longrightarrow> code item = JStr c \<Longrightarrow>
   amount_loop (pre @ item # post) c = quantity item"
  by (induction pre) simp_all

lemma amount_loop_absent:
  "\<forall>i\<in>set items. code i \<noteq> JStr c \<Longrightarrow> amount_loop items c = JInt 0"
  by (induction items) simp_all

lemma sample_execute_any:
  assumes "st < 400"
  shows "execute (sample_server st secs) chr tr (Task_init u ''POST'' cb None) =
     (None,
      Task u ''POST'' [] cb (JInt secs) (Some sample_cd) [(''details'', JObj [(''xp'', JInt 7)])],
      tr @ [(request_of (Task_init u ''POST'' cb None), chr)])"
  using assms
  by (simp add: execute_def make_request_def sample_server_def sample_data_def
      Task_init_def sample_from_json set_character_def set_cooldown_def set_payload_def
      request_of_def Let_def)

lemma sample_run_task_any:
  assumes "st < 400"
  shows "run_task (sample_server st 0) (sample_self (Task_init u ''POST'' None None # q), tr) =
     (None, (sample_self q)\<lparr>character_data := Some (Parsed sample_cd)\<rparr>,
      tr @ [(request_of (Task_init u ''POST'' None None), sample_self q)])"
proof -
  let ?t = "Task_init u ''POST'' None None"
  have ex: "execute (sample_server st 0) ((sample_self (?t # q))\<lparr>tasks := Some q\<rparr>) tr ?t =
     (None,
      Task u ''POST'' [] None (JInt 0) (Some sample_cd) [(''details'', JObj [(''xp'', JInt 7)])],
      tr @ [(request_of ?t, sample_self q)])"
    using sample_execute_any[OF assms] by simp
  have q: "tasks (sample_self (?t # q)) = Some (?t # q)" by simp
  show ?thesis
    using run_task_ok[OF q ex, of sample_cd False]
    by (simp add: Let_def sample_self_def)
qed

lemma next_filter_found:
  "\<forall>p\<in>set pre. \<exists>v. getitem p ''name'' = Inr v \<and> v \<noteq> JStr nm \<Longrightarrow>
   getitem r ''name'' = Inr (JStr nm) \<Longrightarrow>
   next_filter nm (pre @ r # post) = Inr r"
  by (induction pre) auto

lemma next_filter_absent:
  "\<forall>p\<in>set recs. \<exists>v. getitem p ''name'' = Inr v \<and> v \<noteq> JStr nm \<Longrightarrow>
   next_filter nm recs = Inl RuntimeError"
  by (induction recs) auto

lemma next_filter_Inr:
  "next_filter nm recs = Inr r \<Longrightarrow> r \<in> set recs \<and> getitem r ''name'' = Inr (JStr nm)"
  by (induction recs) (auto simp: bindE_eq_Inr split: if_splits)

lemma characters_request:
  "make_request characters_server chr tr ''/my/characters'' ''GET'' [] =
     (Inr (JList sample_characters),
      tr @ [(Request ''GET'' (BASE_URL @ ''/my/characters'') [], chr)])"
  by (simp add: make_request_def characters_server_def Let_def)

lemma execute_sends:
  assumes "''uri'' \<notin> fst ` set (params t)" and "''method'' \<notin> fst ` set (params t)"
  shows "snd (snd (execute srv chr tr t)) = tr @ [(request_of t, chr)]"
proof -
  obtain r t' tr' where ex: "execute srv chr tr t = (r, t', tr')"
    by (cases "execute srv chr tr t") auto
  obtain d tr1 where mr: "make_request srv chr tr (url t) (http_method t) (params t) = (d, tr1)"
    by (cases "make_request srv chr tr (url t) (http_method t) (params t)")
  then have "snd (make_request srv chr tr (url t) (http_method t) (params t)) = tr1" by simp
  then have tr1: "tr1 = tr @ [(request_of t, chr)]"
    by (simp add: make_request_trace request_of_def)
  from ex mr assms have "tr' = tr1"
    by (auto simp: execute_def Let_def split: sum.splits)
  with ex tr1 show ?thesis by simp
qed

lemma make_request_result:
  "fst (make_request srv chr tr u m d) =
     bindE (srv (map fst tr @ [Request m (BASE_URL @ u) d])) (\<lambda>response.
       if 400 \<le> status response then Inl (ClientResponseError (status response))
       else bindE (json_body response) (\<lambda>body. getitem body ''data''))"
  by (simp add: make_request_def Let_def)

lemma execute_request_fails:
  assumes "''uri'' \<notin> fst ` set (params t)" and "''method'' \<notin> fst ` set (params t)"
    and "fst (make_request srv chr tr (url t) (http_method t) (params t)) = Inl e"
  shows "fst (execute srv chr tr t) = Some e"
  using assms by (auto simp: execute_def split: prod.splits sum.splits)

lemma execute_no_character:
  assumes "''uri'' \<notin> fst ` set (params t)" and "''method'' \<notin> fst ` set (params t)"
    and "fst (make_request srv chr tr (url t) (http_method t) (params t)) = Inr (JObj kvs)"
    and "map_of kvs ''character'' = None"
  shows "fst (execute srv chr tr t) = Some (KeyError ''character'')"
  using assms by (auto simp: execute_def split: prod.splits sum.splits)

lemma execute_no_cooldown:
  assumes "''uri'' \<notin> fst ` set (params t)" and "''method'' \<notin> fst ` set (params t)"
    and "fst (make_request srv chr tr (url t) (http_method t) (params t)) = Inr (JObj kvs)"
    and "map_of kvs ''character'' = Some cj" and "CharacterData_from_json cj = Inr cd"
    and "map_of kvs ''cooldown'' = None"
  shows "fst (execute srv chr tr t) = Some (KeyError ''cooldown'')"
  using assms by (auto simp: execute_def Let_def split: prod.splits sum.splits)

lemma not_isl_iff: "\<not> isl s \<longleftrightarrow> (\<exists>b. s = Inr b)"
  by (cases s) auto

lemma response_ok_iff:
  "response_ok resp \<longleftrightarrow>
     status resp < 400 \<and>
     (\<exists>kvs cd b.
        bindE (json_body resp) (\<lambda>body. getitem body ''data'') = Inr (JObj kvs) \<and>
        bindE (getitem (JObj kvs) ''character'') CharacterData_from_json = Inr cd \<and>
        bindE (getitem (JObj kvs) ''cooldown'') (\<lambda>c.
          bindE (getitem c ''remaining_seconds'') py_gt0) = Inr b)"
proof (cases "bindE (json_body resp) (\<lambda>body. getitem body ''data'')")
  case (Inl e)
  then show ?thesis by (simp add: response_ok_def)
next
  case (Inr d)
  then show ?thesis
    by (cases d) (simp_all add: response_ok_def not_isl_iff del: getitem.simps)
qed

lemma execute_ok:
  assumes p1: "''uri'' \<notin> fst ` set (params t)" and p2: "''method'' \<notin> fst ` set (params t)"
    and srv: "srv (map fst tr @ [request_of t]) = Inr resp" and ok: "response_ok resp"
  shows "\<exists>t' b. execute srv chr tr t = (None, t', tr @ [(request_of t, chr)]) \<and>
           py_gt0 (cooldown t') = Inr b"
proof -
  from ok obtain kvs cd b where st: "status resp < 400"
    and data: "bindE (json_body resp) (\<lambda>body. getitem body ''data'') = Inr (JObj kvs)"
    and ch: "bindE (getitem (JObj kvs) ''character'') CharacterData_from_json = Inr cd"
    and cw: "bindE (getitem (JObj kvs) ''cooldown'') (\<lambda>c.
               bindE (getitem c ''remaining_seconds'') py_gt0) = Inr b"
    unfolding response_ok_iff by blast
  from cw obtain secs where
    secs: "bindE (getitem (JObj kvs) ''cooldown'') (\<lambda>c. getitem c ''remaining_seconds'') = Inr secs"
    and b: "py_gt0 secs = Inr b"
    by (auto simp: bindE_eq_Inr)
  from srv st data have mr: "make_request srv chr tr (url t) (http_method t) (params t) =
      (Inr (JObj kvs), tr @ [(request_of t, chr)])"
    by (simp add: make_request_def Let_def request_of_def)
  from store_payload_total[of "map fst kvs" kvs "payload t"] obtain p where
    p: "store_payload (JObj kvs) (map fst kvs) (payload t) = Inr p" by auto
  from p1 p2 mr ch secs p have
    "execute srv chr tr t =
       (None, Task (url t) (http_method t) (params t) (callback t) secs (Some cd) p,
        tr @ [(request_of t, chr)])"
    by (simp add: execute_def Let_def set_character_def set_cooldown_def set_payload_def)
  with b show ?thesis by simp
qed

lemma run_task_succeeds:
  assumes q: "tasks c = Some (t # q)" and cb: "callback t = None"
    and p1: "''uri'' \<notin> fst ` set (params t)" and p2: "''method'' \<notin> fst ` set (params t)"
    and srv: "\<forall>evs. \<exists>resp. srv evs = Inr resp \<and> response_ok resp"
  shows "\<exists>c' tr'. run_task srv (c, tr) = (None, c', tr') \<and> tasks c' = Some q \<and>
           request_view tr' = request_view tr @ [(request_of t, Some q)]"
proof -
  let ?c1 = "c\<lparr>tasks := Some q\<rparr>"
  from srv obtain resp where "srv (map fst tr @ [request_of t]) = Inr resp" "response_ok resp"
    by blast
  from execute_ok[where srv = srv and tr = tr and chr = ?c1, OF p1 p2 this] obtain t' b where
    ex: "execute srv ?c1 tr t = (None, t', tr @ [(request_of t, ?c1)])"
    and b: "py_gt0 (cooldown t') = Inr b"
    by blast
  from execute_None[OF ex] obtain cd where cd: "character t' = Some cd" by auto
  from execute_callback[OF ex] cb have cb': "callback t' = None" by simp
  from run_task_ok[OF q ex cd b] cb' show ?thesis
    by (cases b) (simp_all add: Let_def)
qed

lemma run_all_fifo_ok:
  assumes "tasks c = Some q" and "\<forall>t\<in>set q. callback t = None"
    and "\<forall>t\<in>set q. ''uri'' \<notin> fst ` set (params t) \<and> ''method'' \<notin> fst ` set (params t)"
    and srv: "\<forall>evs. \<exists>resp. srv evs = Inr resp \<and> response_ok resp"
  shows "\<exists>c' tr'. run_all srv (c, tr) = Some (None, c', tr') \<and> tasks c' = Some [] \<and>
           request_view tr' = request_view tr @ fifo_view q"
  using assms(1-3)
proof (induction q arbitrary: c tr)
  case Nil
  then have "run_all srv (c, tr) = Some (None, c, tr)" by (simp add: run_all_Nil)
  with Nil show ?case by simp
next
  case (Cons t q)
  from Cons.prems have cb: "callback t = None"
    and p1: "''uri'' \<notin> fst ` set (params t)" and p2: "''method'' \<notin> fst ` set (params t)"
    by simp_all
  from run_task_succeeds[OF Cons.prems(1) cb p1 p2 srv, of tr] obtain c1 tr1 where
    rt: "run_task srv (c, tr) = (None, c1, tr1)" and q1: "tasks c1 = Some q"
    and v1: "request_view tr1 = request_view tr @ [(request_of t, Some q)]"
    by blast
  from run_all_Cons_ok[OF Cons.prems(1) rt]
  have ra: "run_all srv (c, tr) = run_all srv (c1, tr1)" .
  from Cons.prems have "\<forall>t\<in>set q. callback t = None"
    "\<forall>t\<in>set q. ''uri'' \<notin> fst ` set (params t) \<and> ''method'' \<notin> fst ` set (params t)"
    by simp_all
  from Cons.IH[OF q1 this, of tr1] obtain c' tr' where
    "run_all srv (c1, tr1) = Some (None, c', tr')" "tasks c' = Some []"
    "request_view tr' = request_view tr1 @ fifo_view q"
    by blast
  with ra v1 show ?case by simp
qed

lemma sample_response_ok:
  "response_ok \<lparr>status = 200, json_body = Inr (JObj [(''data'', sample_data secs)])\<rparr>"
  by (simp add: response_ok_def sample_data_def sample_from_json)

section \<open>The claims\<close>

text \<open>
  C1. When \<^verbatim>\<open>run_task\<close> completes for the task at the head of the queue, the
  character's data is exactly the \<^verbatim>\<open>CharacterData\<close> decoded from the
  \<^verbatim>\<open>character\<close> member of that task's response, whatever it was before: the task
  that executed carries a character, so the guard on it never skips the replacement.
\<close>

theorem C1_state_replaced:
  assumes "tasks c = Some (t # q)" and "run_task srv (c, tr) = (None, c', tr')"
  shows "\<exists>t' tr1 kvs cj cd.
           execute srv (c\<lparr>tasks := Some q\<rparr>) tr t = (None, t', tr1) \<and>
           fst (make_request srv (c\<lparr>tasks := Some q\<rparr>) tr (url t) (http_method t) (params t))
             = Inr (JObj kvs) \<and>
           map_of kvs ''character'' = Some cj \<and> CharacterData_from_json cj = Inr cd \<and>
           character t' = Some cd \<and> character_data c' = Some (Parsed cd)"
proof -
  let ?c1 = "c\<lparr>tasks := Some q\<rparr>"
  obtain r t' tr1 where ex: "execute srv ?c1 tr t = (r, t', tr1)"
    by (cases "execute srv ?c1 tr t") auto
  have "r = None"
  proof (cases r)
    case (Some e)
    with ex run_task_fail[OF assms(1)] assms(2) show ?thesis by simp
  qed simp
  with ex have ex': "execute srv ?c1 tr t = (None, t', tr1)" by simp
  from execute_None[OF ex'] obtain kvs cj cd where
    mr: "make_request srv ?c1 tr (url t) (http_method t) (params t) = (Inr (JObj kvs), tr1)"
    and cj: "map_of kvs ''character'' = Some cj" and cd: "CharacterData_from_json cj = Inr cd"
    and ch: "character t' = Some cd"
    by auto
  have "character_data c' = Some (Parsed cd)"
  proof (cases "py_gt0 (cooldown t')")
    case (Inl e)
    with assms ex' ch show ?thesis
      by (simp add: run_task_def Let_def add_tasks_Some split: option.splits)
  next
    case (Inr b)
    from run_task_ok[OF assms(1) ex' ch Inr] assms(2) show ?thesis
      by (cases b) (auto simp: Let_def)
  qed
  with ex' mr cj cd ch show ?thesis by auto
qed

theorem C1_witness:
  "tasks (sample_self [sample_task None]) = Some [sample_task None] \<and>
   run_task (sample_server 200 5) (sample_self [sample_task None], []) =
     (None, (sample_self [])\<lparr>character_data := Some (Parsed sample_cd)\<rparr>,
      [(request_of (sample_task None), sample_self []),
       (Sleep (JInt 5), (sample_self [])\<lparr>character_data := Some (Parsed sample_cd), on_cooldown := True\<rparr>)]) \<and>
   (\<exists>cd. CharacterData_from_json sample_character = Inr cd \<and>
      character_data ((sample_self [])\<lparr>character_data := Some (Parsed sample_cd)\<rparr>) = Some (Parsed cd))"
proof -
  have h1: "tasks (sample_self [sample_task None]) = Some [sample_task None]" by simp
  have h2: "run_task (sample_server 200 5) (sample_self [sample_task None], []) =
     (None, (sample_self [])\<lparr>character_data := Some (Parsed sample_cd)\<rparr>,
      [(request_of (sample_task None), sample_self []),
       (Sleep (JInt 5), (sample_self [])\<lparr>character_data := Some (Parsed sample_cd), on_cooldown := True\<rparr>)])"
    by (simp add: sample_run_task Let_def)
  from C1_state_replaced[OF h1 h2] obtain cd where
    "character_data ((sample_self [])\<lparr>character_data := Some (Parsed sample_cd)\<rparr>) = Some (Parsed cd)"
    by blast
  then have "cd = sample_cd" by simp
  with h1 h2 show ?thesis by (simp add: sample_from_json)
qed

text \<open>
  C7. \<^verbatim>\<open>pop(0)\<close> on an empty queue raises IndexError, and \<^verbatim>\<open>run_task\<close> then
  leaves the character, its empty queue included, and the trace as they were; on a queue
  with head \<open>t\<close> and rest \<open>q\<close> the head is removed and returned, and after
  \<^verbatim>\<open>run_task\<close> the queue is \<open>q\<close> followed by what the callback added.
\<close>

theorem C7_dequeue_head:
  "pop0 ([] :: Task list) = Inl IndexError \<and>
   pop0 (t # q) = Inr (t, q) \<and>
   (tasks c = Some [] \<longrightarrow> run_task srv (c, tr) = (Some IndexError, c, tr)) \<and>
   (tasks c = Some (t # q) \<longrightarrow> (\<exists>ts. tasks (fst (snd (run_task srv (c, tr)))) = Some (q @ ts)))"
  using run_task_Nil run_task_queue by auto

theorem C7_witness:
  "tasks (sample_self []) = Some [] \<and>
   run_task (sample_server 200 5) (sample_self [], []) = (Some IndexError, sample_self [], []) \<and>
   tasks (sample_self [sample_task None, sample_task None]) = Some [sample_task None, sample_task None] \<and>
   tasks (fst (snd (run_task (sample_server 200 5) (sample_self [sample_task None, sample_task None], []))))
     = Some [sample_task None]"
proof -
  have h1: "tasks (sample_self []) = Some []" by simp
  have "tasks (sample_self [sample_task None, sample_task None]) = Some [sample_task None, sample_task None]"
    by simp
  moreover have "tasks (fst (snd (run_task (sample_server 200 5)
      (sample_self [sample_task None, sample_task None], [])))) = Some [sample_task None]"
    by (simp add: sample_run_task Let_def)
  ultimately show ?thesis
    using C7_dequeue_head[of "sample_task None" "[]" "sample_self []" "sample_server 200 5" "[]"] h1
    by simp
qed

text \<open>
  C10. If executing the dequeued task raises \<open>e\<close>, \<^verbatim>\<open>run_task\<close> raises \<open>e\<close>; the
  queue is left without the failed task, and the character's data, cooldown flag and name
  are what they were before the call.
\<close>

theorem C10_failed_task_removed:
  assumes "tasks c = Some (t # q)"
    and "execute srv (c\<lparr>tasks := Some q\<rparr>) tr t = (Some e, t', tr')"
  shows "\<exists>c'. run_task srv (c, tr) = (Some e, c', tr') \<and> tasks c' = Some q \<and>
           character_data c' = character_data c \<and> on_cooldown c' = on_cooldown c \<and>
           name c' = name c"
  using run_task_fail[OF assms] by simp

theorem C10_witness:
  "tasks (sample_self [sample_task None, sample_task None]) = Some [sample_task None, sample_task None] \<and>
   execute (sample_server 500 5) ((sample_self [sample_task None, sample_task None])\<lparr>tasks := Some [sample_task None]\<rparr>)
      [] (sample_task None) =
     (Some (ClientResponseError 500), sample_task None,
      [(request_of (sample_task None), sample_self [sample_task None])]) \<and>
   (\<exists>c'. run_task (sample_server 500 5) (sample_self [sample_task None, sample_task None], []) =
      (Some (ClientResponseError 500), c', [(request_of (sample_task None), sample_self [sample_task None])]) \<and>
      tasks c' = Some [sample_task None] \<and> character_data c' = None \<and> \<not> on_cooldown c')"
proof -
  have h1: "tasks (sample_self [sample_task None, sample_task None]) = Some [sample_task None, sample_task None]"
    by simp
  have h2: "execute (sample_server 500 5) ((sample_self [sample_task None, sample_task None])\<lparr>tasks := Some [sample_task None]\<rparr>)
      [] (sample_task None) =
     (Some (ClientResponseError 500), sample_task None,
      [(request_of (sample_task None), sample_self [sample_task None])])"
    by (simp add: sample_execute_fail)
  from C10_failed_task_removed[OF h1 h2] h1 h2 show ?thesis
    by auto
qed


text \<open>
  C3. When the task at the head of the queue carries a callback and executes, the
  callback is called with the character's data as just replaced and with the task's
  payload, and the tasks it adds are at the tail of the queue; if the cooldown is
  positive, the queue already holds them while the coroutine sleeps.
\<close>

theorem C3_continuation_before_cooldown:
  assumes "tasks c = Some (t # q)" and "callback t = Some cb"
    and "execute srv (c\<lparr>tasks := Some q\<rparr>) tr t = (None, t', tr1)"
    and "py_gt0 (cooldown t') = Inr b"
  shows "\<exists>cd c2. character t' = Some cd \<and>
           c2 = c\<lparr>tasks := Some (q @ cb (Some (Parsed cd)) (payload t')),
                  character_data := Some (Parsed cd)\<rparr> \<and>
           run_task srv (c, tr) =
             (if b then (None, c2\<lparr>on_cooldown := False\<rparr>,
                         tr1 @ [(Sleep (cooldown t'), c2\<lparr>on_cooldown := True\<rparr>)])
              else (None, c2, tr1))"
proof -
  from execute_None[OF assms(3)] obtain cd where ch: "character t' = Some cd" by auto
  from execute_callback[OF assms(3)] assms(2) have cb: "callback t' = Some cb" by simp
  from run_task_ok[OF assms(1) assms(3) ch assms(4)] cb ch show ?thesis
    by (simp add: Let_def)
qed

theorem C3_witness:
  "tasks (sample_self [sample_task (Some sample_callback)]) = Some [sample_task (Some sample_callback)] \<and>
   callback (sample_task (Some sample_callback)) = Some sample_callback \<and>
   py_gt0 (JInt 5) = Inr True \<and>
   run_task (sample_server 200 5) (sample_self [sample_task (Some sample_callback)], []) =
     (None,
      (sample_self [Task_init ''/my/bob/action/rest'' ''POST'' None None])
        \<lparr>character_data := Some (Parsed sample_cd)\<rparr>,
      [(request_of (sample_task (Some sample_callback)), sample_self []),
       (Sleep (JInt 5),
        (sample_self [Task_init ''/my/bob/action/rest'' ''POST'' None None])
          \<lparr>character_data := Some (Parsed sample_cd), on_cooldown := True\<rparr>)])"
proof -
  let ?t = "sample_task (Some sample_callback)"
  let ?t' = "Task ''/my/bob/action/gathering'' ''POST'' [] (Some sample_callback) (JInt 5)
      (Some sample_cd) [(''details'', JObj [(''xp'', JInt 7)])]"
  have h1: "tasks (sample_self [?t]) = Some (?t # [])" by simp
  have h2: "callback ?t = Some sample_callback" by (simp add: sample_task_def Task_init_def)
  have h3: "execute (sample_server 200 5) ((sample_self [?t])\<lparr>tasks := Some []\<rparr>) [] ?t =
      (None, ?t', [] @ [(request_of ?t, sample_self [])])"
    by (simp add: sample_execute)
  have h4: "py_gt0 (cooldown ?t') = Inr True" by simp
  from C3_continuation_before_cooldown[OF h1 h2 h3 h4] h1 h2 show ?thesis
    by (simp add: sample_callback_def sample_self_def)
qed

text \<open>
  C4. When the executed task's cooldown is the integer \<open>n\<close>: if \<open>n\<close> is positive the
  coroutine sleeps once, for \<open>n\<close>, with \<^verbatim>\<open>on_cooldown\<close> true during the sleep
  and false after it; otherwise there is no sleep and \<^verbatim>\<open>on_cooldown\<close> is what it
  was. The request before it is sent with the flag untouched.
\<close>

theorem C4_cooldown_flag:
  assumes "tasks c = Some (t # q)"
    and "execute srv (c\<lparr>tasks := Some q\<rparr>) tr t = (None, t', tr1)"
    and "cooldown t' = JInt n"
  shows "\<exists>c' tr'. run_task srv (c, tr) = (None, c', tr') \<and>
           tr1 = tr @ [(request_of t, c\<lparr>tasks := Some q\<rparr>)] \<and>
           (0 < n \<longrightarrow> (\<exists>c2. tr' = tr1 @ [(Sleep (JInt n), c2)] \<and> on_cooldown c2 \<and>
                             c' = c2\<lparr>on_cooldown := False\<rparr>)) \<and>
           (n \<le> 0 \<longrightarrow> tr' = tr1 \<and> on_cooldown c' = on_cooldown c)"
proof -
  from execute_None[OF assms(2)] obtain cd where ch: "character t' = Some cd" by auto
  from assms(3) have gt: "py_gt0 (cooldown t') = Inr (0 < n)" by simp
  note rt = run_task_ok[OF assms(1) assms(2) ch gt]
  note tr1 = execute_trace[OF assms(2)]
  show ?thesis
  proof (cases "0 < n")
    case True
    with rt tr1 assms(3) show ?thesis by (simp add: Let_def)
  next
    case False
    with rt tr1 show ?thesis by (simp add: Let_def)
  qed
qed

theorem C4_witness:
  "tasks (sample_self [sample_task None]) = Some [sample_task None] \<and>
   (\<exists>c' tr'. run_task (sample_server 200 5) (sample_self [sample_task None], []) = (None, c', tr') \<and>
      (\<exists>c2. tr' = [(request_of (sample_task None), sample_self []), (Sleep (JInt 5), c2)] \<and>
            on_cooldown c2 \<and> c' = c2\<lparr>on_cooldown := False\<rparr>)) \<and>
   (\<exists>c' tr'. run_task (sample_server 200 0) (sample_self [sample_task None], []) = (None, c', tr') \<and>
      tr' = [(request_of (sample_task None), sample_self [])] \<and> \<not> on_cooldown c')"
proof -
  let ?t = "sample_task None"
  let ?t' = "\<lambda>secs. Task ''/my/bob/action/gathering'' ''POST'' [] None (JInt secs)
      (Some sample_cd) [(''details'', JObj [(''xp'', JInt 7)])]"
  have h1: "tasks (sample_self [?t]) = Some (?t # [])" by simp
  have h2: "execute (sample_server 200 secs) ((sample_self [?t])\<lparr>tasks := Some []\<rparr>) [] ?t =
      (None, ?t' secs, [] @ [(request_of ?t, sample_self [])])" for secs
    by (simp add: sample_execute)
  have h3: "cooldown (?t' secs) = JInt secs" for secs by simp
  from C4_cooldown_flag[OF h1 h2 h3, of 5] C4_cooldown_flag[OF h1 h2 h3, of 0] h1
  show ?thesis by simp
qed

text \<open>
  C5. A task as \<^verbatim>\<open>Task(...)\<close> builds it, once executed, has as payload the response
  without the keys \<^verbatim>\<open>cooldown\<close> and \<^verbatim>\<open>character\<close>: every other key has its
  response value, and the two reserved keys are absent.
\<close>

theorem C5_payload_strips_reserved:
  assumes "execute srv chr tr (Task_init u m cb ps) = (None, t', tr')"
  shows "\<exists>kvs. make_request srv chr tr u m (case ps of None \<Rightarrow> [] | Some p \<Rightarrow> p)
                 = (Inr (JObj kvs), tr') \<and>
           (\<forall>k. map_of (payload t') k =
                  (if k = ''cooldown'' \<or> k = ''character'' then None else map_of kvs k))"
proof -
  from execute_None[OF assms] obtain kvs p where
    mr: "make_request srv chr tr u m (case ps of None \<Rightarrow> [] | Some p \<Rightarrow> p) = (Inr (JObj kvs), tr')"
    and sp: "store_payload (JObj kvs) (map fst kvs) [] = Inr p"
    and p: "payload t' = p"
    by (auto simp: Task_init_def)
  have "map_of p k = (if k = ''cooldown'' \<or> k = ''character'' then None else map_of kvs k)" for k
  proof (cases "k \<in> fst ` set kvs")
    case True
    with store_payload_lookup[OF sp, of k] show ?thesis by auto
  next
    case False
    then have "map_of kvs k = None" by (simp add: map_of_eq_None_iff)
    with store_payload_lookup[OF sp, of k] False show ?thesis by auto
  qed
  with mr p show ?thesis by blast
qed

theorem C5_witness:
  "execute (sample_server 200 5) (sample_self []) [] (Task_init ''/my/bob/action/gathering'' ''POST'' None None) =
     (None,
      Task ''/my/bob/action/gathering'' ''POST'' [] None (JInt 5) (Some sample_cd)
        [(''details'', JObj [(''xp'', JInt 7)])],
      [(request_of (sample_task None), sample_self [])]) \<and>
   (\<exists>kvs. fst (make_request (sample_server 200 5) (sample_self []) [] ''/my/bob/action/gathering'' ''POST'' [])
              = Inr (JObj kvs) \<and>
      (\<forall>k. map_of [(''details'', JObj [(''xp'', JInt 7)])] k =
                  (if k = ''cooldown'' \<or> k = ''character'' then None else map_of kvs k)))"
proof -
  have h: "execute (sample_server 200 5) (sample_self []) [] (Task_init ''/my/bob/action/gathering'' ''POST'' None None) =
     (None,
      Task ''/my/bob/action/gathering'' ''POST'' [] None (JInt 5) (Some sample_cd)
        [(''details'', JObj [(''xp'', JInt 7)])],
      [(request_of (sample_task None), sample_self [])])"
    using sample_execute[of 200 5 "sample_self []" "[]" None] by (simp add: sample_task_def)
  from C5_payload_strips_reserved[OF h] obtain kvs where
    mr: "make_request (sample_server 200 5) (sample_self []) [] ''/my/bob/action/gathering'' ''POST''
           (case None of None \<Rightarrow> [] | Some p \<Rightarrow> p)
         = (Inr (JObj kvs), [(request_of (sample_task None), sample_self [])])"
    and pl: "\<forall>k. map_of (payload (Task ''/my/bob/action/gathering'' ''POST'' [] None (JInt 5)
               (Some sample_cd) [(''details'', JObj [(''xp'', JInt 7)])])) k =
             (if k = ''cooldown'' \<or> k = ''character'' then None else map_of kvs k)"
    by blast
  from mr have mr': "fst (make_request (sample_server 200 5) (sample_self []) []
      ''/my/bob/action/gathering'' ''POST'' []) = Inr (JObj kvs)"
    by simp
  from pl have pl': "\<forall>k. map_of [(''details'', JObj [(''xp'', JInt 7)])] k =
             (if k = ''cooldown'' \<or> k = ''character'' then None else map_of kvs k)"
    by simp
  from h mr' pl' show ?thesis by blast
qed

text \<open>
  C9. \<^verbatim>\<open>get_amount_by_code\<close> returns the quantity of the first inventory item with the
  given code and 0 when there is none; for an item held with quantity 0 the result is
  that same 0.
\<close>

theorem C9_get_amount_by_code:
  assumes "character_data chr = Some (Parsed cd)"
  shows "(\<forall>pre item post. inventory cd = pre @ item # post \<and> (\<forall>i\<in>set pre. code i \<noteq> JStr c) \<and>
             code item = JStr c \<longrightarrow> get_amount_by_code chr c = Inr (quantity item)) \<and>
         ((\<forall>i\<in>set (inventory cd). code i \<noteq> JStr c) \<longrightarrow> get_amount_by_code chr c = Inr (JInt 0)) \<and>
         (inventory cd = [\<lparr>quantity = JInt 0, slot = s, code = JStr c\<rparr>] \<longrightarrow>
             get_amount_by_code chr c = Inr (JInt 0))"
  using assms by (auto simp: get_amount_by_code_def amount_loop_found amount_loop_absent)

theorem C9_witness:
  "character_data ((sample_self [])\<lparr>character_data := Some (Parsed sample_cd)\<rparr>) = Some (Parsed sample_cd) \<and>
   get_amount_by_code ((sample_self [])\<lparr>character_data := Some (Parsed sample_cd)\<rparr>) ''ash_wood'' = Inr (JInt 4) \<and>
   get_amount_by_code ((sample_self [])\<lparr>character_data := Some (Parsed sample_cd)\<rparr>) ''copper_ore'' = Inr (JInt 0) \<and>
   get_amount_by_code
     ((sample_self [])\<lparr>character_data := Some (Parsed (sample_cd\<lparr>inventory :=
         [\<lparr>quantity = JInt 0, slot = JInt 1, code = JStr ''copper_ore''\<rparr>]\<rparr>))\<rparr>) ''copper_ore''
     = Inr (JInt 0)"
proof -
  let ?chr = "(sample_self [])\<lparr>character_data := Some (Parsed sample_cd)\<rparr>"
  let ?cdz = "sample_cd\<lparr>inventory := [\<lparr>quantity = JInt 0, slot = JInt 1, code = JStr ''copper_ore''\<rparr>]\<rparr>"
  let ?chrz = "(sample_self [])\<lparr>character_data := Some (Parsed ?cdz)\<rparr>"
  have h: "character_data ?chr = Some (Parsed sample_cd)" by simp
  have h0: "character_data ?chrz = Some (Parsed ?cdz)" by simp
  have inv: "inventory sample_cd = [] @ \<lparr>quantity = JInt 4, slot = JInt 1, code = JStr ''ash_wood''\<rparr> # []"
    by (simp add: sample_cd_def)
  from C9_get_amount_by_code[OF h, of "''ash_wood''"]
  have found: "\<forall>pre item post. inventory sample_cd = pre @ item # post \<and>
        (\<forall>i\<in>set pre. code i \<noteq> JStr ''ash_wood'') \<and> code item = JStr ''ash_wood'' \<longrightarrow>
        get_amount_by_code ?chr ''ash_wood'' = Inr (quantity item)"
    by (rule conjunct1)
  from found[rule_format, of "[]" "\<lparr>quantity = JInt 4, slot = JInt 1, code = JStr ''ash_wood''\<rparr>" "[]"]
    inv have a: "get_amount_by_code ?chr ''ash_wood'' = Inr (JInt 4)" by simp
  from C9_get_amount_by_code[OF h, of "''copper_ore''"] inv
  have b: "get_amount_by_code ?chr ''copper_ore'' = Inr (JInt 0)" by simp
  from C9_get_amount_by_code[OF h0, where c = "''copper_ore''" and s = "JInt 1"]
  have c: "get_amount_by_code ?chrz ''copper_ore'' = Inr (JInt 0)" by simp
  from h a b c show ?thesis by blast
qed

text \<open>
  C2. Tasks without callbacks, added one by one to an empty queue, stand in the queue in
  the order they were added. Running the queue to the end always returns, and the
  requests sent are those of a prefix of the tasks in that order, each sent while the
  queue holds exactly the tasks after it. When no parameter clashes with a keyword
  argument and the server answers every request with a well-formed response, the run
  ends without error: every task has been requested, in order, and the queue is empty.
\<close>

theorem C2_fifo_order:
  assumes "tasks c0 = Some []" and "\<forall>t\<in>set ts. callback t = None"
  shows "\<exists>c. add_tasks c0 ts = Inr c \<and> tasks c = Some ts \<and>
           (\<exists>e c' tr' k. run_all srv (c, tr) = Some (e, c', tr') \<and> k \<le> length ts \<and>
              request_view tr' = request_view tr @ take k (fifo_view ts) \<and>
              (e = None \<longrightarrow> k = length ts \<and> tasks c' = Some [])) \<and>
           ((\<forall>t\<in>set ts. ''uri'' \<notin> fst ` set (params t) \<and> ''method'' \<notin> fst ` set (params t)) \<and>
            (\<forall>evs. \<exists>resp. srv evs = Inr resp \<and> response_ok resp) \<longrightarrow>
            (\<exists>c' tr'. run_all srv (c, tr) = Some (None, c', tr') \<and> tasks c' = Some [] \<and>
               request_view tr' = request_view tr @ fifo_view ts))"
proof -
  let ?c = "c0\<lparr>tasks := Some ts\<rparr>"
  have t: "tasks ?c = Some ts" by simp
  from add_tasks_Some[OF assms(1), of ts] have a: "add_tasks c0 ts = Inr ?c" by simp
  from run_all_fifo[OF t assms(2), of srv tr]
  have b: "\<exists>e c' tr' k. run_all srv (?c, tr) = Some (e, c', tr') \<and> k \<le> length ts \<and>
              request_view tr' = request_view tr @ take k (fifo_view ts) \<and>
              (e = None \<longrightarrow> k = length ts \<and> tasks c' = Some [])" .
  have c: "(\<forall>t\<in>set ts. ''uri'' \<notin> fst ` set (params t) \<and> ''method'' \<notin> fst ` set (params t)) \<and>
            (\<forall>evs. \<exists>resp. srv evs = Inr resp \<and> response_ok resp) \<longrightarrow>
            (\<exists>c' tr'. run_all srv (?c, tr) = Some (None, c', tr') \<and> tasks c' = Some [] \<and>
               request_view tr' = request_view tr @ fifo_view ts)"
  proof
    assume h: "(\<forall>t\<in>set ts. ''uri'' \<notin> fst ` set (params t) \<and> ''method'' \<notin> fst ` set (params t)) \<and>
            (\<forall>evs. \<exists>resp. srv evs = Inr resp \<and> response_ok resp)"
    from run_all_fifo_ok[OF t assms(2) h[THEN conjunct1] h[THEN conjunct2], of tr]
    show "\<exists>c' tr'. run_all srv (?c, tr) = Some (None, c', tr') \<and> tasks c' = Some [] \<and>
               request_view tr' = request_view tr @ fifo_view ts" .
  qed
  show ?thesis
    by (rule exI[of _ ?c]) (intro conjI a t b c)
qed

theorem C2_witness:
  "tasks (sample_self []) = Some [] \<and>
   callback (Task_init ''/my/bob/action/move'' ''POST'' None None) = None \<and>
   callback (Task_init ''/my/bob/action/gathering'' ''POST'' None None) = None \<and>
   response_ok \<lparr>status = 200, json_body = Inr (JObj [(''data'', sample_data 0)])\<rparr> \<and>
   add_tasks (sample_self [])
     [Task_init ''/my/bob/action/move'' ''POST'' None None,
      Task_init ''/my/bob/action/gathering'' ''POST'' None None] =
     Inr (sample_self [Task_init ''/my/bob/action/move'' ''POST'' None None,
                       Task_init ''/my/bob/action/gathering'' ''POST'' None None]) \<and>
   (\<exists>c' tr'. run_all (sample_server 200 0)
        (sample_self [Task_init ''/my/bob/action/move'' ''POST'' None None,
                      Task_init ''/my/bob/action/gathering'' ''POST'' None None], []) =
        Some (None, c', tr') \<and> tasks c' = Some [] \<and>
      request_view tr' =
        [(request_of (Task_init ''/my/bob/action/move'' ''POST'' None None),
          Some [Task_init ''/my/bob/action/gathering'' ''POST'' None None]),
         (request_of (Task_init ''/my/bob/action/gathering'' ''POST'' None None), Some [])])"
proof -
  let ?t1 = "Task_init ''/my/bob/action/move'' ''POST'' None None"
  let ?t2 = "Task_init ''/my/bob/action/gathering'' ''POST'' None None"
  let ?srv = "sample_server 200 0"
  have h1: "tasks (sample_self []) = Some []" by simp
  have h2: "\<forall>t\<in>set [?t1, ?t2]. callback t = None" by (simp add: Task_init_def)
  have h2': "callback ?t1 = None" "callback ?t2 = None" by (simp_all add: Task_init_def)
  have h3: "\<forall>t\<in>set [?t1, ?t2]. ''uri'' \<notin> fst ` set (params t) \<and> ''method'' \<notin> fst ` set (params t)"
    by (simp add: Task_init_def)
  have ok: "response_ok \<lparr>status = 200, json_body = Inr (JObj [(''data'', sample_data 0)])\<rparr>"
    by (rule sample_response_ok)
  have h4: "\<forall>evs. \<exists>resp. ?srv evs = Inr resp \<and> response_ok resp"
    using ok by (simp add: sample_server_def)
  from C2_fifo_order[OF h1 h2, of ?srv "[]"] obtain c where
    add: "add_tasks (sample_self []) [?t1, ?t2] = Inr c"
    and imp: "(\<forall>t\<in>set [?t1, ?t2]. ''uri'' \<notin> fst ` set (params t) \<and> ''method'' \<notin> fst ` set (params t)) \<and>
            (\<forall>evs. \<exists>resp. ?srv evs = Inr resp \<and> response_ok resp) \<longrightarrow>
            (\<exists>c' tr'. run_all ?srv (c, []) = Some (None, c', tr') \<and> tasks c' = Some [] \<and>
               request_view tr' = request_view [] @ fifo_view [?t1, ?t2])"
    by (elim exE conjE)
  from add_tasks_Some[OF h1, of "[?t1, ?t2]"] have add': "add_tasks (sample_self []) [?t1, ?t2] =
      Inr (sample_self [?t1, ?t2])" by simp
  with add have c: "c = sample_self [?t1, ?t2]" by simp
  from imp h3 h4 have "\<exists>c' tr'. run_all ?srv (c, []) = Some (None, c', tr') \<and> tasks c' = Some [] \<and>
               request_view tr' = request_view [] @ fifo_view [?t1, ?t2]"
    by (rule mp[OF _ conjI])
  with c have run: "\<exists>c' tr'. run_all ?srv (sample_self [?t1, ?t2], []) = Some (None, c', tr') \<and>
      tasks c' = Some [] \<and>
      request_view tr' = [(request_of ?t1, Some [?t2]), (request_of ?t2, Some [])]"
    by simp
  from h1 h2' ok add' run show ?thesis by (intro conjI)
qed

text \<open>
  C8, for lists whose records carry a name. When the request for the character list
  returns the list \<open>recs\<close>: if the records before the first one named like the
  character carry other names, \<^verbatim>\<open>init\<close> sets the character's data to that record and
  the queue to empty; if every record carries another name, \<^verbatim>\<open>init\<close> raises (the
  exhausted iterator, a RuntimeError from a coroutine) and the data is left as it was,
  unset for a new character. For any list at all: when no record is named like the
  character \<^verbatim>\<open>init\<close> raises and leaves the data as it was, with the queue empty; and
  whenever \<^verbatim>\<open>init\<close> returns, the data is a record of the list named like the
  character.
\<close>

theorem C8_init:
  assumes "make_request srv (self\<lparr>tasks := Some []\<rparr>) tr ''/my/characters'' ''GET'' []
             = (Inr (JList recs), tr')"
  shows "(\<forall>pre r post.
            recs = pre @ r # post \<and>
            (\<forall>p\<in>set pre. \<exists>v. getitem p ''name'' = Inr v \<and> v \<noteq> JStr (name self)) \<and>
            getitem r ''name'' = Inr (JStr (name self)) \<longrightarrow>
            init srv (self, tr) =
              (None, self\<lparr>tasks := Some [], character_data := Some (Raw r)\<rparr>, tr')) \<and>
         ((\<forall>p\<in>set recs. \<exists>v. getitem p ''name'' = Inr v \<and> v \<noteq> JStr (name self)) \<longrightarrow>
            init srv (self, tr) = (Some RuntimeError, self\<lparr>tasks := Some []\<rparr>, tr')) \<and>
         ((\<forall>p\<in>set recs. getitem p ''name'' \<noteq> Inr (JStr (name self))) \<longrightarrow>
            (\<exists>e. init srv (self, tr) = (Some e, self\<lparr>tasks := Some []\<rparr>, tr'))) \<and>
         (\<forall>c' tr2. init srv (self, tr) = (None, c', tr2) \<longrightarrow>
            (\<exists>r\<in>set recs. getitem r ''name'' = Inr (JStr (name self)) \<and>
               c' = self\<lparr>tasks := Some [], character_data := Some (Raw r)\<rparr>))"
proof (intro conjI)
  show "\<forall>pre r post.
            recs = pre @ r # post \<and>
            (\<forall>p\<in>set pre. \<exists>v. getitem p ''name'' = Inr v \<and> v \<noteq> JStr (name self)) \<and>
            getitem r ''name'' = Inr (JStr (name self)) \<longrightarrow>
            init srv (self, tr) =
              (None, self\<lparr>tasks := Some [], character_data := Some (Raw r)\<rparr>, tr')"
    using assms by (auto simp: init_def Let_def next_filter_found)
  show "(\<forall>p\<in>set recs. \<exists>v. getitem p ''name'' = Inr v \<and> v \<noteq> JStr (name self)) \<longrightarrow>
            init srv (self, tr) = (Some RuntimeError, self\<lparr>tasks := Some []\<rparr>, tr')"
    using assms by (auto simp: init_def Let_def next_filter_absent)
  show "(\<forall>p\<in>set recs. getitem p ''name'' \<noteq> Inr (JStr (name self))) \<longrightarrow>
            (\<exists>e. init srv (self, tr) = (Some e, self\<lparr>tasks := Some []\<rparr>, tr'))"
  proof
    assume none: "\<forall>p\<in>set recs. getitem p ''name'' \<noteq> Inr (JStr (name self))"
    have "\<exists>e. next_filter (name self) recs = Inl e"
    proof (cases "next_filter (name self) recs")
      case (Inr r)
      from next_filter_Inr[OF this] none show ?thesis by blast
    qed simp
    then obtain e where "next_filter (name self) recs = Inl e" ..
    with assms show "\<exists>e. init srv (self, tr) = (Some e, self\<lparr>tasks := Some []\<rparr>, tr')"
      by (simp add: init_def Let_def)
  qed
  show "\<forall>c' tr2. init srv (self, tr) = (None, c', tr2) \<longrightarrow>
            (\<exists>r\<in>set recs. getitem r ''name'' = Inr (JStr (name self)) \<and>
               c' = self\<lparr>tasks := Some [], character_data := Some (Raw r)\<rparr>)"
  proof (intro allI impI)
    fix c' tr2 assume ok: "init srv (self, tr) = (None, c', tr2)"
    show "\<exists>r\<in>set recs. getitem r ''name'' = Inr (JStr (name self)) \<and>
               c' = self\<lparr>tasks := Some [], character_data := Some (Raw r)\<rparr>"
    proof (cases "next_filter (name self) recs")
      case (Inl e)
      with assms ok show ?thesis by (simp add: init_def Let_def)
    next
      case (Inr r)
      with assms ok have "c' = self\<lparr>tasks := Some [], character_data := Some (Raw r)\<rparr>"
        by (simp add: init_def Let_def)
      with next_filter_Inr[OF Inr] show ?thesis by blast
    qed
  qed
qed

theorem C8_witness:
  "init characters_server (Character_init ''bob'', []) =
     (None,
      \<lparr>on_cooldown = False, tasks = Some [],
       character_data = Some (Raw (JObj [(''name'', JStr ''bob''), (''level'', JInt 3)])),
       name = ''bob''\<rparr>,
      [(Request ''GET'' (BASE_URL @ ''/my/characters'') [],
        \<lparr>on_cooldown = False, tasks = Some [], character_data = None, name = ''bob''\<rparr>)]) \<and>
   init characters_server (Character_init ''carol'', []) =
     (Some RuntimeError,
      \<lparr>on_cooldown = False, tasks = Some [], character_data = None, name = ''carol''\<rparr>,
      [(Request ''GET'' (BASE_URL @ ''/my/characters'') [],
        \<lparr>on_cooldown = False, tasks = Some [], character_data = None, name = ''carol''\<rparr>)])"
proof -
  let ?alice = "JObj [(''name'', JStr ''alice''), (''level'', JInt 9)]"
  let ?bob = "JObj [(''name'', JStr ''bob''), (''level'', JInt 3)]"
  have req: "make_request characters_server ((Character_init nm)\<lparr>tasks := Some []\<rparr>) []
       ''/my/characters'' ''GET'' [] =
     (Inr (JList sample_characters),
      [] @ [(Request ''GET'' (BASE_URL @ ''/my/characters'') [],
             (Character_init nm)\<lparr>tasks := Some []\<rparr>)])" for nm
    by (rule characters_request)
  note found = C8_init[OF req, of "''bob''", THEN conjunct1, rule_format, of "[?alice]" ?bob "[]"]
  note absent = C8_init[OF req, of "''carol''", THEN conjunct2, THEN conjunct1, rule_format]
  have a: "init characters_server (Character_init ''bob'', []) =
     (None, (Character_init ''bob'')\<lparr>tasks := Some [], character_data := Some (Raw ?bob)\<rparr>,
      [] @ [(Request ''GET'' (BASE_URL @ ''/my/characters'') [],
             (Character_init ''bob'')\<lparr>tasks := Some []\<rparr>)])"
    by (rule found) (simp add: sample_characters_def Character_init_def)
  have b: "init characters_server (Character_init ''carol'', []) =
     (Some RuntimeError, (Character_init ''carol'')\<lparr>tasks := Some []\<rparr>,
      [] @ [(Request ''GET'' (BASE_URL @ ''/my/characters'') [],
             (Character_init ''carol'')\<lparr>tasks := Some []\<rparr>)])"
    by (rule absent) (auto simp: sample_characters_def Character_init_def)
  from a b show ?thesis by (simp add: Character_init_def)
qed

text \<open>
  C8 as stated, for every list, fails: when a record without a name stands before the
  record named like the character, \<^verbatim>\<open>init\<close> raises the KeyError of the lookup and
  sets no data, though a matching record is in the list.
\<close>

theorem C8_counterexample:
  "getitem (JObj [(''name'', JStr ''bob'')]) ''name'' = Inr (JStr ''bob'') \<and>
   nameless_server [Request ''GET'' (BASE_URL @ ''/my/characters'') []] =
     Inr \<lparr>status = 200,
          json_body = Inr (JObj [(''data'',
            JList [JObj [(''level'', JInt 9)], JObj [(''name'', JStr ''bob'')]])])\<rparr> \<and>
   init nameless_server (Character_init ''bob'', []) =
     (Some (KeyError ''name''),
      \<lparr>on_cooldown = False, tasks = Some [], character_data = None, name = ''bob''\<rparr>,
      [(Request ''GET'' (BASE_URL @ ''/my/characters'') [],
        \<lparr>on_cooldown = False, tasks = Some [], character_data = None, name = ''bob''\<rparr>)])"
  by (simp add: init_def make_request_def nameless_server_def Character_init_def Let_def)

text \<open>
  C6, with the status bound the code has. Executing a task whose parameters do not clash with the keyword
  arguments sends exactly one request. If the transport fails with \<open>e\<close>, execution
  fails with \<open>e\<close>; if the status is 400 or above, with the response error of that status;
  if the response data lacks \<^verbatim>\<open>character\<close>, or has a decodable character and lacks
  \<^verbatim>\<open>cooldown\<close>, with the KeyError of the missing key. Whatever error execution
  fails with, \<^verbatim>\<open>run_task\<close> raises that same error after the one request, and the
  runner's loop stops there with it, the rest of the queue untouched.
\<close>

theorem C6_failures_propagate:
  assumes q: "tasks c = Some (t # q)"
    and p1: "''uri'' \<notin> fst ` set (params t)" and p2: "''method'' \<notin> fst ` set (params t)"
  shows
    "snd (snd (execute srv (c\<lparr>tasks := Some q\<rparr>) tr t)) = tr @ [(request_of t, c\<lparr>tasks := Some q\<rparr>)] \<and>
     (\<forall>e. srv (map fst tr @ [request_of t]) = Inl e \<longrightarrow>
        fst (execute srv (c\<lparr>tasks := Some q\<rparr>) tr t) = Some e) \<and>
     (\<forall>resp. srv (map fst tr @ [request_of t]) = Inr resp \<and> 400 \<le> status resp \<longrightarrow>
        fst (execute srv (c\<lparr>tasks := Some q\<rparr>) tr t) = Some (ClientResponseError (status resp))) \<and>
     (\<forall>resp body kvs. srv (map fst tr @ [request_of t]) = Inr resp \<and> status resp < 400 \<and>
        json_body resp = Inr body \<and> getitem body ''data'' = Inr (JObj kvs) \<and>
        map_of kvs ''character'' = None \<longrightarrow>
        fst (execute srv (c\<lparr>tasks := Some q\<rparr>) tr t) = Some (KeyError ''character'')) \<and>
     (\<forall>resp body kvs cj cd. srv (map fst tr @ [request_of t]) = Inr resp \<and> status resp < 400 \<and>
        json_body resp = Inr body \<and> getitem body ''data'' = Inr (JObj kvs) \<and>
        map_of kvs ''character'' = Some cj \<and> CharacterData_from_json cj = Inr cd \<and>
        map_of kvs ''cooldown'' = None \<longrightarrow>
        fst (execute srv (c\<lparr>tasks := Some q\<rparr>) tr t) = Some (KeyError ''cooldown'')) \<and>
     (\<forall>e. fst (execute srv (c\<lparr>tasks := Some q\<rparr>) tr t) = Some e \<longrightarrow>
        run_task srv (c, tr) = (Some e, c\<lparr>tasks := Some q\<rparr>, tr @ [(request_of t, c\<lparr>tasks := Some q\<rparr>)]) \<and>
        run_all srv (c, tr) = Some (Some e, c\<lparr>tasks := Some q\<rparr>, tr @ [(request_of t, c\<lparr>tasks := Some q\<rparr>)]))"
proof -
  let ?c1 = "c\<lparr>tasks := Some q\<rparr>"
  let ?tr1 = "tr @ [(request_of t, ?c1)]"
  let ?mr = "fst (make_request srv ?c1 tr (url t) (http_method t) (params t))"
  let ?r = "fst (execute srv ?c1 tr t)"
  have sent: "snd (snd (execute srv ?c1 tr t)) = ?tr1"
    by (rule execute_sends[OF p1 p2])
  have a: "\<forall>e. srv (map fst tr @ [request_of t]) = Inl e \<longrightarrow> ?r = Some e"
  proof (intro allI impI)
    fix e assume "srv (map fst tr @ [request_of t]) = Inl e"
    then have "?mr = Inl e" by (simp add: make_request_result request_of_def)
    from execute_request_fails[OF p1 p2 this] show "?r = Some e" .
  qed
  have b: "\<forall>resp. srv (map fst tr @ [request_of t]) = Inr resp \<and> 400 \<le> status resp \<longrightarrow>
             ?r = Some (ClientResponseError (status resp))"
  proof (intro allI impI)
    fix resp assume "srv (map fst tr @ [request_of t]) = Inr resp \<and> 400 \<le> status resp"
    then have "?mr = Inl (ClientResponseError (status resp))"
      by (simp add: make_request_result request_of_def)
    from execute_request_fails[OF p1 p2 this]
    show "?r = Some (ClientResponseError (status resp))" .
  qed
  have mr: "?mr = Inr (JObj kvs)"
    if "srv (map fst tr @ [request_of t]) = Inr resp" "status resp < 400"
       "json_body resp = Inr body" "getitem body ''data'' = Inr (JObj kvs)" for resp body kvs
    using that by (simp add: make_request_result request_of_def)
  have c: "\<forall>resp body kvs. srv (map fst tr @ [request_of t]) = Inr resp \<and> status resp < 400 \<and>
        json_body resp = Inr body \<and> getitem body ''data'' = Inr (JObj kvs) \<and>
        map_of kvs ''character'' = None \<longrightarrow> ?r = Some (KeyError ''character'')"
  proof (intro allI impI, elim conjE)
    fix resp body kvs
    assume h: "srv (map fst tr @ [request_of t]) = Inr resp" "status resp < 400"
       "json_body resp = Inr body" "getitem body ''data'' = Inr (JObj kvs)"
       "map_of kvs ''character'' = None"
    from execute_no_character[OF p1 p2 mr[OF h(1-4)] h(5)]
    show "?r = Some (KeyError ''character'')" .
  qed
  have d: "\<forall>resp body kvs cj cd. srv (map fst tr @ [request_of t]) = Inr resp \<and> status resp < 400 \<and>
        json_body resp = Inr body \<and> getitem body ''data'' = Inr (JObj kvs) \<and>
        map_of kvs ''character'' = Some cj \<and> CharacterData_from_json cj = Inr cd \<and>
        map_of kvs ''cooldown'' = None \<longrightarrow> ?r = Some (KeyError ''cooldown'')"
  proof (intro allI impI, elim conjE)
    fix resp body kvs cj cd
    assume h: "srv (map fst tr @ [request_of t]) = Inr resp" "status resp < 400"
       "json_body resp = Inr body" "getitem body ''data'' = Inr (JObj kvs)"
       "map_of kvs ''character'' = Some cj" "CharacterData_from_json cj = Inr cd"
       "map_of kvs ''cooldown'' = None"
    from execute_no_cooldown[OF p1 p2 mr[OF h(1-4)] h(5-7)]
    show "?r = Some (KeyError ''cooldown'')" .
  qed
  have e: "\<forall>e. ?r = Some e \<longrightarrow>
        run_task srv (c, tr) = (Some e, ?c1, ?tr1) \<and>
        run_all srv (c, tr) = Some (Some e, ?c1, ?tr1)"
  proof (intro allI impI)
    fix e assume r: "?r = Some e"
    obtain r' t' tr' where ex0: "execute srv ?c1 tr t = (r', t', tr')"
      by (cases "execute srv ?c1 tr t") auto
    with r sent have "execute srv ?c1 tr t = (Some e, t', ?tr1)" by simp
    from run_task_fail[OF q this] have rt: "run_task srv (c, tr) = (Some e, ?c1, ?tr1)" .
    with run_all_Cons_fail[OF q rt]
    show "run_task srv (c, tr) = (Some e, ?c1, ?tr1) \<and>
          run_all srv (c, tr) = Some (Some e, ?c1, ?tr1)" by simp
  qed
  show ?thesis
    by (intro conjI) (rule sent a b c d e)+
qed

text \<open>
  C6 as stated fails for a status outside 2xx and below 400: a response with status 300
  and a well-formed body is executed without any failure.
\<close>

theorem C6_counterexample:
  "sample_server 300 5 [request_of (sample_task None)] =
     Inr \<lparr>status = 300, json_body = Inr (JObj [(''data'', sample_data 5)])\<rparr> \<and>
   \<not> (200 \<le> (300::nat) \<and> (300::nat) < 300) \<and>
   fst (execute (sample_server 300 5) (sample_self []) [] (sample_task None)) = None \<and>
   fst (run_task (sample_server 300 5) (sample_self [sample_task None], [])) = None"
proof -
  have a: "sample_server 300 5 [request_of (sample_task None)] =
     Inr \<lparr>status = 300, json_body = Inr (JObj [(''data'', sample_data 5)])\<rparr>"
    by (simp add: sample_server_def)
  have b: "fst (execute (sample_server 300 5) (sample_self []) [] (sample_task None)) = None"
    by (simp add: sample_execute)
  have c: "fst (run_task (sample_server 300 5) (sample_self [sample_task None], [])) = None"
    by (simp add: sample_run_task Let_def)
  from a b c show ?thesis by simp
qed

theorem C6_witness:
  "tasks (sample_self [sample_task None, sample_task None]) = Some [sample_task None, sample_task None] \<and>
   ''uri'' \<notin> fst ` set (params (sample_task None)) \<and>
   ''method'' \<notin> fst ` set (params (sample_task None)) \<and>
   sample_server 404 5 (map fst [] @ [request_of (sample_task None)]) =
     Inr \<lparr>status = 404, json_body = Inr (JObj [(''data'', sample_data 5)])\<rparr> \<and>
   run_task (sample_server 404 5) (sample_self [sample_task None, sample_task None], []) =
     (Some (ClientResponseError 404), sample_self [sample_task None],
      [(request_of (sample_task None), sample_self [sample_task None])]) \<and>
   run_all (sample_server 404 5) (sample_self [sample_task None, sample_task None], []) =
     Some (Some (ClientResponseError 404), sample_self [sample_task None],
           [(request_of (sample_task None), sample_self [sample_task None])])"
proof -
  let ?t = "sample_task None"
  let ?c = "sample_self [?t, ?t]"
  let ?resp = "\<lparr>status = 404, json_body = Inr (JObj [(''data'', sample_data 5)])\<rparr>"
  have h1: "tasks ?c = Some (?t # [?t])" by simp
  have h2: "''uri'' \<notin> fst ` set (params ?t)" by (simp add: sample_task_def Task_init_def)
  have h3: "''method'' \<notin> fst ` set (params ?t)" by (simp add: sample_task_def Task_init_def)
  have h4: "sample_server 404 5 (map fst [] @ [request_of ?t]) = Inr ?resp"
    by (simp add: sample_server_def)
  note th = C6_failures_propagate[OF h1 h2 h3, of "sample_server 404 5" "[]"]
  note st = th[THEN conjunct2, THEN conjunct2, THEN conjunct1, rule_format, of ?resp]
  note stop = th[THEN conjunct2, THEN conjunct2, THEN conjunct2, THEN conjunct2, THEN conjunct2,
      rule_format, of "ClientResponseError 404"]
  from st h4 have r: "fst (execute (sample_server 404 5) (?c\<lparr>tasks := Some [?t]\<rparr>) [] ?t) =
      Some (ClientResponseError 404)"
    by simp
  from stop[OF r] have
    "run_task (sample_server 404 5) (?c, []) =
       (Some (ClientResponseError 404), sample_self [?t], [(request_of ?t, sample_self [?t])])"
    "run_all (sample_server 404 5) (?c, []) =
       Some (Some (ClientResponseError 404), sample_self [?t], [(request_of ?t, sample_self [?t])])"
    by simp_all
  with h1 h2 h3 h4 show ?thesis by blast
qed

end
